theory Spec2Isabelle
  imports Main "HOL-Library.Sublist"
begin

section \<open>Strings\<close>

text \<open>
  Python strings are modelled as HOL strings. A HOL character is one of the code points 0 to
  255, so the model covers the text whose characters lie in that range (ASCII and Latin-1);
  text with a code point above 255 is outside the model. On these strings \<open>str.lower\<close>,
  \<open>str.strip\<close> and \<open>str.split\<close> are modelled exactly: the upper-case letters are
  \<open>A\<close> to \<open>Z\<close> and the code points 0xC0 to 0xDE without 0xD7, each 32 below its
  lower-case letter, and no other character changes under \<open>lower\<close>.
\<close>

definition ascii_uppercase :: string where
  "ascii_uppercase = ''ABCDEFGHIJKLMNOPQRSTUVWXYZ''"

definition ascii_lowercase :: string where
  "ascii_lowercase = ''abcdefghijklmnopqrstuvwxyz''"

definition latin1_uppercase :: string where
  "latin1_uppercase =
     [CHR 0xC0, CHR 0xC1, CHR 0xC2, CHR 0xC3, CHR 0xC4, CHR 0xC5, CHR 0xC6, CHR 0xC7,
      CHR 0xC8, CHR 0xC9, CHR 0xCA, CHR 0xCB, CHR 0xCC, CHR 0xCD, CHR 0xCE, CHR 0xCF,
      CHR 0xD0, CHR 0xD1, CHR 0xD2, CHR 0xD3, CHR 0xD4, CHR 0xD5, CHR 0xD6, CHR 0xD8,
      CHR 0xD9, CHR 0xDA, CHR 0xDB, CHR 0xDC, CHR 0xDD, CHR 0xDE]"

definition latin1_lowercase :: string where
  "latin1_lowercase =
     [CHR 0xE0, CHR 0xE1, CHR 0xE2, CHR 0xE3, CHR 0xE4, CHR 0xE5, CHR 0xE6, CHR 0xE7,
      CHR 0xE8, CHR 0xE9, CHR 0xEA, CHR 0xEB, CHR 0xEC, CHR 0xED, CHR 0xEE, CHR 0xEF,
      CHR 0xF0, CHR 0xF1, CHR 0xF2, CHR 0xF3, CHR 0xF4, CHR 0xF5, CHR 0xF6, CHR 0xF8,
      CHR 0xF9, CHR 0xFA, CHR 0xFB, CHR 0xFC, CHR 0xFD, CHR 0xFE]"

definition upper_letters :: string where
  "upper_letters = ascii_uppercase @ latin1_uppercase"

definition lower_letters :: string where
  "lower_letters = ascii_lowercase @ latin1_lowercase"

definition lower_char :: "char \<Rightarrow> char" where
  "lower_char c = (case map_of (zip upper_letters lower_letters) c of Some d \<Rightarrow> d | None \<Rightarrow> c)"

text \<open>
  The upper-case and the title-case of a character, for \<open>str.title\<close>. The title-case of
  the sharp s (0xDF) is \<open>Ss\<close>. The micro sign (0xB5) and the y with diaeresis (0xFF)
  have their upper-case above 255, outside the model, and are left as they are. Besides the
  letters, the ordinal indicators (0xAA, 0xBA) count as cased.
\<close>

definition upper_char :: "char \<Rightarrow> char" where
  "upper_char c = (case map_of (zip lower_letters upper_letters) c of Some d \<Rightarrow> d | None \<Rightarrow> c)"

definition title_char :: "char \<Rightarrow> string" where
  "title_char c = (if c = CHR 0xDF then ''Ss'' else [upper_char c])"

definition is_cased :: "char \<Rightarrow> bool" where
  "is_cased c = (c \<in> set upper_letters \<or> c \<in> set lower_letters
                 \<or> c \<in> set [CHR 0xAA, CHR 0xB5, CHR 0xBA, CHR 0xDF, CHR 0xFF])"

text \<open>\<open>s.lower()\<close>\<close>

definition py_lower :: "string \<Rightarrow> string" where
  "py_lower s = map lower_char s"

text \<open>\<open>s.replace(old, new)\<close> for one-character \<open>old\<close> and \<open>new\<close>.\<close>

definition py_replace :: "char \<Rightarrow> char \<Rightarrow> string \<Rightarrow> string" where
  "py_replace old new s = map (\<lambda>c. if c = old then new else c) s"

text \<open>\<open>s.title()\<close>: a cased character is title-cased after an uncased one and lower-cased
  after a cased one.\<close>

fun title_from :: "bool \<Rightarrow> string \<Rightarrow> string" where
  "title_from prev [] = []"
| "title_from prev (c # cs) =
     (if is_cased c then (if prev then [lower_char c] else title_char c) @ title_from True cs
      else c # title_from False cs)"

definition py_title :: "string \<Rightarrow> string" where
  "py_title s = title_from False s"

text \<open>The whitespace of \<open>str.strip()\<close> and \<open>str.split()\<close>: the code points 9 to 13, 28 to
  31, 32, 133 (next line) and 160 (no-break space).\<close>

definition is_space :: "char \<Rightarrow> bool" where
  "is_space c = (let n = (of_char c :: nat)
                 in (9 \<le> n \<and> n \<le> 13) \<or> (28 \<le> n \<and> n \<le> 31) \<or> n = 32 \<or> n = 133 \<or> n = 160)"

definition py_strip :: "string \<Rightarrow> string" where
  "py_strip s = rev (dropWhile is_space (rev (dropWhile is_space s)))"

text \<open>\<open>s.split()\<close>: the maximal runs of non-whitespace characters.\<close>

fun split_from :: "string \<Rightarrow> string \<Rightarrow> string list" where
  "split_from cur [] = (if cur = [] then [] else [cur])"
| "split_from cur (c # cs) =
     (if is_space c then (if cur = [] then split_from [] cs else cur # split_from [] cs)
      else split_from (cur @ [c]) cs)"

definition py_split :: "string \<Rightarrow> string list" where
  "py_split s = split_from [] s"

text \<open>\<open>' '.join(parts)\<close>\<close>

fun join_space :: "string list \<Rightarrow> string" where
  "join_space [] = []"
| "join_space [p] = p"
| "join_space (p # q # ps) = p @ '' '' @ join_space (q # ps)"

text \<open>\<open>needle in haystack\<close> on strings: \<open>needle\<close> occurs as a contiguous block.\<close>

fun py_in :: "string \<Rightarrow> string \<Rightarrow> bool" where
  "py_in needle [] = (needle = [])"
| "py_in needle (c # cs) = (prefix needle (c # cs) \<or> py_in needle cs)"

section \<open>Records and fingerprints\<close>

text \<open>The dictionary built by \<open>_extract_record_data\<close>: fifteen string-valued keys.\<close>

record mugshot =
  county :: string
  name :: string
  age :: string
  height :: string
  weight :: string
  hair_color :: string
  eye_color :: string
  sex :: string
  race :: string
  booking_date :: string
  arrested_by :: string
  charges :: string
  bond_amount :: string
  mugshot_url :: string
  scraped_at :: string

text \<open>\<open>generate_record_id\<close>:
  \<open>f"{record['name']}_{record['booking_date']}".lower().replace(' ', '_')\<close>\<close>

definition generate_record_id :: "mugshot \<Rightarrow> string" where
  "generate_record_id record =
     py_replace CHR '' '' CHR ''_'' (py_lower (name record @ ''_'' @ booking_date record))"

section \<open>Dates\<close>

text \<open>
  A naive \<open>datetime\<close>. Python compares two of them field by field, from the year down to the
  microsecond. Time-zone aware values are outside the model.
\<close>

record datetime =
  year :: nat
  month :: nat
  day :: nat
  hour :: nat
  minute :: nat
  second :: nat
  microsecond :: nat

fun lex_less :: "nat list \<Rightarrow> nat list \<Rightarrow> bool" where
  "lex_less [] ys = (ys \<noteq> [])"
| "lex_less (x # xs) [] = False"
| "lex_less (x # xs) (y # ys) = (x < y \<or> (x = y \<and> lex_less xs ys))"

definition dt_fields :: "datetime \<Rightarrow> nat list" where
  "dt_fields d = [year d, month d, day d, hour d, minute d, second d, microsecond d]"

text \<open>\<open>a < b\<close> on datetimes\<close>

definition dt_less :: "datetime \<Rightarrow> datetime \<Rightarrow> bool" where
  "dt_less a b = lex_less (dt_fields a) (dt_fields b)"

text \<open>
  \<open>datetime.strptime\<close> for the directives the four formats of \<open>_parse_date\<close> use; among
  the code points 0 to 255 the decimal digits are \<open>0\<close> to \<open>9\<close>. The
  library turns a format into a regular expression, matches it at the start of the text and
  rejects the text when characters remain after the match:
  \<open>%Y\<close> is \<open>\d\d\d\d\<close>, \<open>%m\<close> is \<open>1[0-2]|0[1-9]|[1-9]\<close>,
  \<open>%d\<close> is \<open>3[01]|[12]\d|0[1-9]|[1-9]| [1-9]\<close>, any other character stands for itself.
  The alternatives of a directive are tried in this order, with backtracking.
\<close>

datatype directive = Dir_Y | Dir_m | Dir_d | Lit char

definition is_digit :: "char \<Rightarrow> bool" where
  "is_digit c = (c \<in> set ''0123456789'')"

definition digit_val :: "char \<Rightarrow> nat" where
  "digit_val c = (of_char c :: nat) - 48"

definition two_chars :: "(char \<Rightarrow> char \<Rightarrow> bool) \<Rightarrow> (char \<Rightarrow> char \<Rightarrow> nat) \<Rightarrow> string \<Rightarrow> (nat \<times> string) list" where
  "two_chars P v s = (case s of a # b # rest \<Rightarrow> (if P a b then [(v a b, rest)] else []) | _ \<Rightarrow> [])"

definition one_char :: "(char \<Rightarrow> bool) \<Rightarrow> string \<Rightarrow> (nat \<times> string) list" where
  "one_char P s = (case s of a # rest \<Rightarrow> (if P a then [(digit_val a, rest)] else []) | _ \<Rightarrow> [])"

definition two_digits :: "char \<Rightarrow> char \<Rightarrow> nat" where
  "two_digits a b = 10 * digit_val a + digit_val b"

definition nonzero_digit :: "char \<Rightarrow> bool" where
  "nonzero_digit c = (c \<in> set ''123456789'')"

text \<open>The ways one directive can match at the start of \<open>s\<close>, in the order the regular
  expression tries them: the value read and the text left.\<close>

fun alternatives :: "directive \<Rightarrow> string \<Rightarrow> (nat \<times> string) list" where
  "alternatives Dir_Y s =
     (case s of a # b # c # d # rest \<Rightarrow>
        (if is_digit a \<and> is_digit b \<and> is_digit c \<and> is_digit d
         then [(1000 * digit_val a + 100 * digit_val b + 10 * digit_val c + digit_val d, rest)]
         else [])
      | _ \<Rightarrow> [])"
| "alternatives Dir_m s =
     two_chars (\<lambda>a b. a = CHR ''1'' \<and> b \<in> set ''012'') two_digits s
     @ two_chars (\<lambda>a b. a = CHR ''0'' \<and> nonzero_digit b) two_digits s
     @ one_char nonzero_digit s"
| "alternatives Dir_d s =
     two_chars (\<lambda>a b. a = CHR ''3'' \<and> b \<in> set ''01'') two_digits s
     @ two_chars (\<lambda>a b. a \<in> set ''12'' \<and> is_digit b) two_digits s
     @ two_chars (\<lambda>a b. a = CHR ''0'' \<and> nonzero_digit b) two_digits s
     @ one_char nonzero_digit s
     @ two_chars (\<lambda>a b. a = CHR '' '' \<and> nonzero_digit b) (\<lambda>a b. digit_val b) s"
| "alternatives (Lit c) s = (case s of a # rest \<Rightarrow> (if a = c then [(0, rest)] else []) | _ \<Rightarrow> [])"

text \<open>The first complete match of the format in backtracking order: the values of the
  directives and the text left after the match.\<close>

fun re_match :: "directive list \<Rightarrow> string \<Rightarrow> ((directive \<times> nat) list \<times> string) option"
  and first_alternative :: "directive \<Rightarrow> directive list \<Rightarrow> (nat \<times> string) list \<Rightarrow> ((directive \<times> nat) list \<times> string) option"
where
  "re_match [] s = Some ([], s)"
| "re_match (d # ds) s = first_alternative d ds (alternatives d s)"
| "first_alternative d ds [] = None"
| "first_alternative d ds ((v, rest) # alts) =
     (case re_match ds rest of
        Some (groups, left) \<Rightarrow> Some ((d, v) # groups, left)
      | None \<Rightarrow> first_alternative d ds alts)"

definition is_leap :: "nat \<Rightarrow> bool" where
  "is_leap y = (y mod 4 = 0 \<and> (y mod 100 \<noteq> 0 \<or> y mod 400 = 0))"

definition days_in_month :: "nat \<Rightarrow> nat \<Rightarrow> nat" where
  "days_in_month y m =
     (if m = 2 then (if is_leap y then 29 else 28)
      else if m = 4 \<or> m = 6 \<or> m = 9 \<or> m = 11 then 30 else 31)"

definition group_or :: "(directive \<times> nat) list \<Rightarrow> directive \<Rightarrow> nat \<Rightarrow> nat" where
  "group_or groups d dflt = (case map_of groups d of Some v \<Rightarrow> v | None \<Rightarrow> dflt)"

text \<open>\<open>datetime.strptime(date_str, fmt)\<close>; \<open>None\<close> is the \<open>ValueError\<close>: no match,
  unconverted text, or a day or year that the \<open>datetime\<close> constructor refuses.\<close>

definition strptime :: "string \<Rightarrow> directive list \<Rightarrow> datetime option" where
  "strptime date_str fmt =
     (case re_match fmt date_str of
        None \<Rightarrow> None
      | Some (groups, left) \<Rightarrow>
          (if left \<noteq> [] then None
           else (let y = group_or groups Dir_Y 1900; m = group_or groups Dir_m 1; d = group_or groups Dir_d 1
                 in if 1 \<le> y \<and> 1 \<le> m \<and> m \<le> 12 \<and> 1 \<le> d \<and> d \<le> days_in_month y m
                    then Some \<lparr>year = y, month = m, day = d, hour = 0, minute = 0, second = 0, microsecond = 0\<rparr>
                    else None)))"

text \<open>\<open>'%Y-%m-%d'\<close>, \<open>'%m/%d/%Y'\<close>, \<open>'%m-%d-%Y'\<close>, \<open>'%Y/%m/%d'\<close>\<close>

definition fmt_Y_m_d :: "directive list" where
  "fmt_Y_m_d = [Dir_Y, Lit CHR ''-'', Dir_m, Lit CHR ''-'', Dir_d]"

definition fmt_m_d_Y_slash :: "directive list" where
  "fmt_m_d_Y_slash = [Dir_m, Lit CHR ''/'', Dir_d, Lit CHR ''/'', Dir_Y]"

definition fmt_m_d_Y :: "directive list" where
  "fmt_m_d_Y = [Dir_m, Lit CHR ''-'', Dir_d, Lit CHR ''-'', Dir_Y]"

definition fmt_Y_m_d_slash :: "directive list" where
  "fmt_Y_m_d_slash = [Dir_Y, Lit CHR ''/'', Dir_m, Lit CHR ''/'', Dir_d]"

definition formats :: "directive list list" where
  "formats = [fmt_Y_m_d, fmt_m_d_Y_slash, fmt_m_d_Y, fmt_Y_m_d_slash]"

text \<open>The loop of \<open>_parse_date\<close>: the first format that does not raise wins.\<close>

fun try_formats :: "string \<Rightarrow> directive list list \<Rightarrow> datetime option" where
  "try_formats date_str [] = None"
| "try_formats date_str (fmt # fmts) =
     (case strptime date_str fmt of Some d \<Rightarrow> Some d | None \<Rightarrow> try_formats date_str fmts)"

definition parse_date :: "string \<Rightarrow> datetime option" where
  "parse_date date_str = (if date_str = [] then None else try_formats date_str formats)"

section \<open>Filtering\<close>

text \<open>
  \<open>_filter_records\<close>. The set \<open>cached_ids\<close> is a mutable object handed over by reference,
  so the model passes it in and returns it next to the list \<open>filtered\<close>. Each
  \<open>continue\<close> of the source is one of the first three branches of \<open>filter_loop\<close>; the
  conditions of the second and the third, the nested \<open>if\<close>s on the dates and on the
  keywords, are \<open>date_excluded\<close> and \<open>keywords_excluded\<close>, and \<open>keyword_hit\<close> is the
  \<open>any(...)\<close> over the keywords.
\<close>

definition keyword_hit :: "string \<Rightarrow> string list \<Rightarrow> bool" where
  "keyword_hit charges_lower charge_keywords =
     list_ex (\<lambda>kw. py_in (py_lower kw) charges_lower) charge_keywords"

definition date_excluded :: "datetime option \<Rightarrow> datetime option \<Rightarrow> mugshot \<Rightarrow> bool" where
  "date_excluded date_from date_to record =
     (if date_from \<noteq> None \<or> date_to \<noteq> None then
        (case parse_date (booking_date record) of
           Some bd \<Rightarrow>
             (if (case date_from of Some f \<Rightarrow> dt_less bd f | None \<Rightarrow> False) then True
              else (case date_to of Some t \<Rightarrow> dt_less t bd | None \<Rightarrow> False))
         | None \<Rightarrow> False)
      else False)"

definition keywords_excluded :: "string list option \<Rightarrow> mugshot \<Rightarrow> bool" where
  "keywords_excluded charge_keywords record =
     (case charge_keywords of
        Some kws \<Rightarrow>
          (if kws \<noteq> [] \<and> charges record \<noteq> []
           then \<not> keyword_hit (py_lower (charges record)) kws
           else False)
      | None \<Rightarrow> False)"

fun filter_loop :: "datetime option \<Rightarrow> datetime option \<Rightarrow> string list option \<Rightarrow>
    mugshot list \<Rightarrow> mugshot list \<times> string set \<Rightarrow> mugshot list \<times> string set" where
  "filter_loop date_from date_to charge_keywords [] st = st"
| "filter_loop date_from date_to charge_keywords (record # records) (filtered, cached_ids) =
     (if generate_record_id record \<in> cached_ids
        then filter_loop date_from date_to charge_keywords records (filtered, cached_ids)
      else if date_excluded date_from date_to record
        then filter_loop date_from date_to charge_keywords records (filtered, cached_ids)
      else if keywords_excluded charge_keywords record
        then filter_loop date_from date_to charge_keywords records (filtered, cached_ids)
      else filter_loop date_from date_to charge_keywords records (filtered @ [record], cached_ids))"

definition filter_records :: "mugshot list \<Rightarrow> string set \<Rightarrow> datetime option \<Rightarrow> datetime option \<Rightarrow>
    string list option \<Rightarrow> mugshot list \<times> string set" where
  "filter_records records cached_ids date_from date_to charge_keywords =
     filter_loop date_from date_to charge_keywords records ([], cached_ids)"

section \<open>Parsing a page\<close>

text \<open>
  The markup is reached through \<open>BeautifulSoup\<close> and \<open>re\<close> only, so a candidate block is
  modelled by what these calls return on it: the stripped text of the first name or title
  element, the \<open>src\<close> of the first image, and the first group of each \<open>re.search\<close> on the
  flattened text (\<open>None\<close> when there is no such element or no match). A block on which
  extraction raises is \<open>Raises\<close>.
\<close>

record entry =
  name_elem :: "string option"
  img_src :: "string option"
  re_age :: "string option"
  re_height :: "string option"
  re_weight :: "string option"
  re_hair :: "string option"
  re_eye :: "string option"
  re_sex :: "string option"
  re_race :: "string option"
  re_booked :: "string option"
  re_arrested_by :: "string option"
  re_bond :: "string option"
  re_charges :: "string option"

datatype candidate = Raises | Block entry

text \<open>\<open>_extract_pattern\<close>, given the first group of the match, if any.\<close>

definition extract_pattern :: "string option \<Rightarrow> bool \<Rightarrow> string" where
  "extract_pattern match multiword =
     (case match of
        Some group1 \<Rightarrow>
          (let result = py_strip group1
           in if multiword then join_space (py_split result) else result)
      | None \<Rightarrow> [])"

text \<open>\<open>_extract_record_data\<close>; \<open>now\<close> is the reading of the clock.\<close>

definition extract_record_data :: "entry \<Rightarrow> string \<Rightarrow> string \<Rightarrow> mugshot option" where
  "extract_record_data e county_name now =
     (let record = \<lparr>county = py_title county_name, name = [], age = [], height = [], weight = [],
                    hair_color = [], eye_color = [], sex = [], race = [], booking_date = [],
                    arrested_by = [], charges = [], bond_amount = [], mugshot_url = [],
                    scraped_at = now\<rparr>;
          record = (case name_elem e of Some t \<Rightarrow> record\<lparr>name := t\<rparr> | None \<Rightarrow> record);
          record = (case img_src e of
                      Some src \<Rightarrow> (if src \<noteq> [] then record\<lparr>mugshot_url := src\<rparr> else record)
                    | None \<Rightarrow> record);
          record = record\<lparr>age := extract_pattern (re_age e) False,
                          height := extract_pattern (re_height e) False,
                          weight := extract_pattern (re_weight e) False,
                          hair_color := extract_pattern (re_hair e) False,
                          eye_color := extract_pattern (re_eye e) False,
                          sex := extract_pattern (re_sex e) False,
                          race := extract_pattern (re_race e) False\<rparr>;
          booked = extract_pattern (re_booked e) False;
          record = (if booked \<noteq> [] then record\<lparr>booking_date := booked\<rparr> else record);
          arrested = extract_pattern (re_arrested_by e) True;
          record = (if arrested \<noteq> [] then record\<lparr>arrested_by := arrested\<rparr> else record);
          bond = extract_pattern (re_bond e) False;
          record = (if bond \<noteq> [] then record\<lparr>bond_amount := bond\<rparr> else record);
          record = (case re_charges e of
                      Some group1 \<Rightarrow> record\<lparr>charges := py_strip group1\<rparr>
                    | None \<Rightarrow> record)
      in if name record \<noteq> [] then Some record else None)"

text \<open>
  A document, as \<open>_parse_page\<close> sees it: the blocks whose class matches
  \<open>mugshot|booking|arrest\<close> and the \<open>div\<close> blocks of class \<open>post\<close>.
  \<open>clock i\<close> is the time at which the \<open>i\<close>-th entry is extracted.
\<close>

record document =
  tagged :: "candidate list"
  posts :: "candidate list"

fun parse_entries :: "candidate list \<Rightarrow> string \<Rightarrow> (nat \<Rightarrow> string) \<Rightarrow> nat \<Rightarrow> mugshot list" where
  "parse_entries [] county_name clock i = []"
| "parse_entries (Raises # es) county_name clock i = parse_entries es county_name clock (Suc i)"
| "parse_entries (Block e # es) county_name clock i =
     (case extract_record_data e county_name (clock i) of
        Some record \<Rightarrow> record # parse_entries es county_name clock (Suc i)
      | None \<Rightarrow> parse_entries es county_name clock (Suc i))"

definition parse_page :: "document \<Rightarrow> string \<Rightarrow> (nat \<Rightarrow> string) \<Rightarrow> mugshot list" where
  "parse_page soup county_name clock =
     (let entries = tagged soup;
          entries = (if entries = [] then posts soup else entries)
      in parse_entries entries county_name clock 0)"

section \<open>The cache files, the log and the requests\<close>

text \<open>
  One cache file per county name. Its fingerprints are kept as a set, the order of the
  stored list and the \<open>last_updated\<close> stamp are left out. \<open>Unreadable\<close> is a file that
  exists and on which \<open>json.load\<close> or the conversion raises.
\<close>

datatype cache_file = Unreadable | Readable "string set"

datatype log_event =
    Error_unsupported string
  | Info_starting string
  | Info_filter_from datetime
  | Info_filter_to datetime
  | Info_filter_charges "string list"
  | Info_scraping int
  | Info_no_more int
  | Info_found nat int
  | Error_fetching int
  | Error_parsing int
  | Info_total string nat
  | Warning_load_cache
  | Warning_save_cache
  | Info_processing string
  | Warning_no_records string
  | Info_saved nat string

text \<open>
  What a run can change outside its return value: the cache directory, the log, the requests
  sent (listing slug and page number, which determine the URL) and the tables written.
\<close>

record world =
  cache_dir :: "string \<Rightarrow> cache_file option"
  logged :: "log_event list"
  requests :: "(string \<times> int) list"
  csv_files :: "(string \<times> mugshot list) list"

definition emit :: "log_event \<Rightarrow> world \<Rightarrow> world" where
  "emit ev w = w\<lparr>logged := logged w @ [ev]\<rparr>"

text \<open>\<open>load_cache\<close>\<close>

definition load_cache :: "world \<Rightarrow> string \<Rightarrow> string set \<times> world" where
  "load_cache w county_name =
     (case cache_dir w county_name of
        None \<Rightarrow> ({}, w)
      | Some Unreadable \<Rightarrow> ({}, emit Warning_load_cache w)
      | Some (Readable ids) \<Rightarrow> (ids, w))"

text \<open>
  \<open>save_cache\<close>. The environment decides how the write ends: it succeeds, or \<open>open\<close> or
  \<open>json.dump\<close> raises. The exception is caught and logged; the failed write leaves the file
  in a state of the environment's choice (as it was when \<open>open\<close> raised, truncated when
  \<open>json.dump\<close> raised after \<open>open\<close>).
\<close>

datatype write_outcome = Written | Write_failed "cache_file option"

definition save_cache :: "write_outcome \<Rightarrow> world \<Rightarrow> string \<Rightarrow> string set \<Rightarrow> world" where
  "save_cache outcome w county_name record_ids =
     (case outcome of
        Written \<Rightarrow> w\<lparr>cache_dir := (cache_dir w)(county_name \<mapsto> Readable record_ids)\<rparr>
      | Write_failed left \<Rightarrow>
          emit Warning_save_cache (w\<lparr>cache_dir := (cache_dir w)(county_name := left)\<rparr>))"

section \<open>Scraping one county\<close>

text \<open>The county mappings of the constructor, in their order.\<close>

definition counties :: "(string \<times> string) list" where
  "counties =
     [(''nelson'', ''nelson-county''), (''jefferson'', ''jefferson-county''),
      (''hardin'', ''hardin-county''), (''bullitt'', ''bullitt-county''),
      (''fayette'', ''fayette-county''), (''spencer'', ''spencer-county''),
      (''warren'', ''warren-county''), (''boone'', ''boone-county''),
      (''franklin'', ''franklin-county'')]"

text \<open>
  What \<open>requests.get\<close>, \<open>raise_for_status\<close> and \<open>BeautifulSoup\<close> give for one page of one
  listing: a \<open>RequestException\<close> (network error or error status), another exception, or the
  document.
\<close>

datatype page_result = Request_exception | Other_exception | Response document

text \<open>\<open>for record in filtered_records: new_record_ids.add(...)\<close>\<close>

definition add_record_ids :: "string set \<Rightarrow> mugshot list \<Rightarrow> string set" where
  "add_record_ids new_record_ids filtered_records =
     foldl (\<lambda>ids record. insert (generate_record_id record) ids) new_record_ids filtered_records"

text \<open>
  The page loop of \<open>scrape_county\<close> over the pages still to visit. Its state is
  \<open>all_records\<close>, \<open>new_record_ids\<close>, \<open>cached_ids\<close> and the world. The two \<open>break\<close>s return
  the state, the \<open>continue\<close> goes on with the next page.
\<close>

fun scrape_pages :: "(string \<Rightarrow> int \<Rightarrow> page_result) \<Rightarrow> (int \<Rightarrow> nat \<Rightarrow> string) \<Rightarrow> string \<Rightarrow> string \<Rightarrow>
    datetime option \<Rightarrow> datetime option \<Rightarrow> string list option \<Rightarrow> int list \<Rightarrow>
    mugshot list \<times> string set \<times> string set \<times> world \<Rightarrow> mugshot list \<times> string set \<times> string set \<times> world" where
  "scrape_pages web clock county_name county_slug date_from date_to charge_keywords [] st = st"
| "scrape_pages web clock county_name county_slug date_from date_to charge_keywords (page # pages)
     (all_records, new_record_ids, cached_ids, w) =
     (let w = emit (Info_scraping page) w;
          w = w\<lparr>requests := requests w @ [(county_slug, page)]\<rparr>
      in case web county_slug page of
           Request_exception \<Rightarrow>
             (all_records, new_record_ids, cached_ids, emit (Error_fetching page) w)
         | Other_exception \<Rightarrow>
             scrape_pages web clock county_name county_slug date_from date_to charge_keywords pages
               (all_records, new_record_ids, cached_ids, emit (Error_parsing page) w)
         | Response soup \<Rightarrow>
             (let records = parse_page soup county_name (clock page)
              in if records = []
                 then (all_records, new_record_ids, cached_ids, emit (Info_no_more page) w)
                 else (case filter_records records cached_ids date_from date_to charge_keywords of
                         (filtered_records, cached_ids) \<Rightarrow>
                           scrape_pages web clock county_name county_slug date_from date_to
                             charge_keywords pages
                             (all_records @ filtered_records,
                              add_record_ids new_record_ids filtered_records,
                              cached_ids,
                              emit (Info_found (length filtered_records) page) w))))"

definition log_filters :: "datetime option \<Rightarrow> datetime option \<Rightarrow> string list option \<Rightarrow> world \<Rightarrow> world" where
  "log_filters date_from date_to charge_keywords w =
     (let w = (case date_from of Some f \<Rightarrow> emit (Info_filter_from f) w | None \<Rightarrow> w);
          w = (case date_to of Some t \<Rightarrow> emit (Info_filter_to t) w | None \<Rightarrow> w)
      in case charge_keywords of
           Some kws \<Rightarrow> (if kws \<noteq> [] then emit (Info_filter_charges kws) w else w)
         | None \<Rightarrow> w)"

text \<open>
  \<open>scrape_county\<close>: \<open>web\<close> is the document set, \<open>clock\<close> the clock of this run and
  \<open>outcome\<close> how the cache write of this run ends, if there is one.
\<close>

definition scrape_county :: "(string \<Rightarrow> int \<Rightarrow> page_result) \<Rightarrow> (int \<Rightarrow> nat \<Rightarrow> string) \<Rightarrow> write_outcome \<Rightarrow>
    world \<Rightarrow> string \<Rightarrow> int \<Rightarrow> datetime option \<Rightarrow> datetime option \<Rightarrow> string list option \<Rightarrow> bool \<Rightarrow>
    mugshot list \<times> world" where
  "scrape_county web clock outcome w county_name max_pages date_from date_to charge_keywords
     skip_duplicates =
     (case map_of counties (py_lower county_name) of
        None \<Rightarrow> ([], emit (Error_unsupported county_name) w)
      | Some county_slug \<Rightarrow>
          (case (if skip_duplicates then load_cache w county_name else ({}, w)) of
             (cached_ids, w) \<Rightarrow>
               (let w = emit (Info_starting county_name) w;
                    w = log_filters date_from date_to charge_keywords w
                in case scrape_pages web clock county_name county_slug date_from date_to
                          charge_keywords [1..max_pages] ([], {}, cached_ids, w) of
                     (all_records, new_record_ids, cached_ids, w) \<Rightarrow>
                       (let w = (if skip_duplicates \<and> new_record_ids \<noteq> {}
                                 then save_cache outcome w county_name (cached_ids \<union> new_record_ids)
                                 else w)
                        in (all_records, emit (Info_total county_name (length all_records)) w)))))"

section \<open>Scraping all counties\<close>

text \<open>\<open>save_to_csv\<close>, as far as \<open>scrape_all_counties\<close> uses it; the write is taken to succeed.\<close>

definition save_to_csv :: "mugshot list \<Rightarrow> string \<Rightarrow> world \<Rightarrow> world" where
  "save_to_csv records county_name w =
     (if records = [] then emit (Warning_no_records county_name) w
      else emit (Info_saved (length records) county_name)
             (w\<lparr>csv_files := csv_files w @ [(py_lower county_name, records)]\<rparr>))"

text \<open>
  The loop of \<open>scrape_all_counties\<close> over the county names still to process; \<open>clocks\<close> and
  \<open>outcomes\<close> give the clock and the cache write outcome of each county's run.
\<close>

fun scrape_counties :: "(string \<Rightarrow> int \<Rightarrow> page_result) \<Rightarrow> (string \<Rightarrow> int \<Rightarrow> nat \<Rightarrow> string) \<Rightarrow>
    (string \<Rightarrow> write_outcome) \<Rightarrow> int \<Rightarrow> datetime option \<Rightarrow> datetime option \<Rightarrow> string list option \<Rightarrow> bool \<Rightarrow>
    string list \<Rightarrow> (string \<Rightarrow> mugshot list option) \<times> world \<Rightarrow> (string \<Rightarrow> mugshot list option) \<times> world" where
  "scrape_counties web clocks outcomes max_pages date_from date_to charge_keywords skip_duplicates
     [] st = st"
| "scrape_counties web clocks outcomes max_pages date_from date_to charge_keywords skip_duplicates
     (county_name # names) (results, w) =
     (let w = emit (Info_processing county_name) w
      in case scrape_county web (clocks county_name) (outcomes county_name) w county_name max_pages
                date_from date_to charge_keywords skip_duplicates of
           (records, w) \<Rightarrow>
             (let results = results(county_name \<mapsto> records);
                  w = (if records \<noteq> [] then save_to_csv records county_name w else w)
              in scrape_counties web clocks outcomes max_pages date_from date_to charge_keywords
                   skip_duplicates names (results, w)))"

definition scrape_all_counties :: "(string \<Rightarrow> int \<Rightarrow> page_result) \<Rightarrow> (string \<Rightarrow> int \<Rightarrow> nat \<Rightarrow> string) \<Rightarrow>
    (string \<Rightarrow> write_outcome) \<Rightarrow> world \<Rightarrow> int \<Rightarrow> datetime option \<Rightarrow> datetime option \<Rightarrow>
    string list option \<Rightarrow> bool \<Rightarrow> (string \<Rightarrow> mugshot list option) \<times> world" where
  "scrape_all_counties web clocks outcomes w max_pages date_from date_to charge_keywords
     skip_duplicates =
     scrape_counties web clocks outcomes max_pages date_from date_to charge_keywords skip_duplicates
       (map fst counties) (Map.empty, w)"

section \<open>Notions of the specification and example data\<close>

text \<open>Two characters are the same letter in different case, or equal.\<close>

definition case_variant :: "char \<Rightarrow> char \<Rightarrow> bool" where
  "case_variant c d =
     (c = d \<or> (c, d) \<in> set (zip upper_letters lower_letters)
            \<or> (d, c) \<in> set (zip upper_letters lower_letters))"

text \<open>
  The specification's fingerprint normal form of a field: lower-cased and
  whitespace-normalized, that is, runs of whitespace collapsed to one space and the ends
  trimmed. Two texts differ only in letter case or whitespace when their normal forms agree.
\<close>

definition normal_form :: "string \<Rightarrow> string" where
  "normal_form s = join_space (py_split (py_lower s))"

definition differ_only_in_case_or_whitespace :: "string \<Rightarrow> string \<Rightarrow> bool" where
  "differ_only_in_case_or_whitespace a b = (normal_form a = normal_form b)"

text \<open>A record with every field empty, the start of the example records.\<close>

definition blank :: mugshot where
  "blank = \<lparr>county = [], name = [], age = [], height = [], weight = [], hair_color = [],
            eye_color = [], sex = [], race = [], booking_date = [], arrested_by = [], charges = [],
            bond_amount = [], mugshot_url = [], scraped_at = []\<rparr>"

text \<open>The three checks of the filter on one record: not cached, not excluded by the dates,
  not excluded by the keywords.\<close>

definition passes :: "string set \<Rightarrow> datetime option \<Rightarrow> datetime option \<Rightarrow> string list option \<Rightarrow>
    mugshot \<Rightarrow> bool" where
  "passes cached_ids date_from date_to charge_keywords record =
     (generate_record_id record \<notin> cached_ids
      \<and> \<not> date_excluded date_from date_to record
      \<and> \<not> keywords_excluded charge_keywords record)"

text \<open>A keyword appears in a text as a case-insensitive substring.\<close>

definition ci_substring :: "string \<Rightarrow> string \<Rightarrow> bool" where
  "ci_substring kw text = sublist (py_lower kw) (py_lower text)"

text \<open>The date range of the specification's example: February 2024.\<close>

definition midnight :: "nat \<Rightarrow> nat \<Rightarrow> nat \<Rightarrow> datetime" where
  "midnight y m d = \<lparr>year = y, month = m, day = d, hour = 0, minute = 0, second = 0, microsecond = 0\<rparr>"

text \<open>A block with no match at all, the start of the example blocks, and a block that
  carries a name and a booking date.\<close>

definition no_match :: entry where
  "no_match = \<lparr>name_elem = None, img_src = None, re_age = None, re_height = None,
               re_weight = None, re_hair = None, re_eye = None, re_sex = None, re_race = None,
               re_booked = None, re_arrested_by = None, re_bond = None, re_charges = None\<rparr>"

definition block_of :: "string \<Rightarrow> string \<Rightarrow> candidate" where
  "block_of nm booked = Block (no_match\<lparr>name_elem := Some nm, re_booked := Some booked\<rparr>)"

text \<open>The names a list of candidate blocks yields: the non-empty texts of their name
  elements, in order.\<close>

fun candidate_names :: "candidate list \<Rightarrow> string list" where
  "candidate_names [] = []"
| "candidate_names (Raises # es) = candidate_names es"
| "candidate_names (Block e # es) =
     (case name_elem e of
        Some t \<Rightarrow> (if t \<noteq> [] then t # candidate_names es else candidate_names es)
      | None \<Rightarrow> candidate_names es)"


text \<open>
  The parsed records of one run, in order: the records of every page that is fetched and
  parsed before the loop stops at a failed request, at a page without records or at the last
  page.
\<close>

fun parsed_records :: "(string \<Rightarrow> int \<Rightarrow> page_result) \<Rightarrow> (int \<Rightarrow> nat \<Rightarrow> string) \<Rightarrow> string \<Rightarrow> string \<Rightarrow>
    int list \<Rightarrow> mugshot list" where
  "parsed_records web clock county_name county_slug [] = []"
| "parsed_records web clock county_name county_slug (page # pages) =
     (case web county_slug page of
        Request_exception \<Rightarrow> []
      | Other_exception \<Rightarrow> parsed_records web clock county_name county_slug pages
      | Response soup \<Rightarrow>
          (if parse_page soup county_name (clock page) = [] then []
           else parse_page soup county_name (clock page)
                @ parsed_records web clock county_name county_slug pages))"

text \<open>The pages one run requests, in order.\<close>

fun pages_requested :: "(string \<Rightarrow> int \<Rightarrow> page_result) \<Rightarrow> (int \<Rightarrow> nat \<Rightarrow> string) \<Rightarrow> string \<Rightarrow> string \<Rightarrow>
    int list \<Rightarrow> int list" where
  "pages_requested web clock county_name county_slug [] = []"
| "pages_requested web clock county_name county_slug (page # pages) =
     (case web county_slug page of
        Request_exception \<Rightarrow> [page]
      | Other_exception \<Rightarrow> page # pages_requested web clock county_name county_slug pages
      | Response soup \<Rightarrow>
          (if parse_page soup county_name (clock page) = [] then [page]
           else page # pages_requested web clock county_name county_slug pages))"

text \<open>The log lines of the page loop of one run, in order.\<close>

fun page_events :: "(string \<Rightarrow> int \<Rightarrow> page_result) \<Rightarrow> (int \<Rightarrow> nat \<Rightarrow> string) \<Rightarrow> string \<Rightarrow> string \<Rightarrow>
    string set \<Rightarrow> datetime option \<Rightarrow> datetime option \<Rightarrow> string list option \<Rightarrow> int list \<Rightarrow> log_event list" where
  "page_events web clock county_name county_slug cached_ids date_from date_to charge_keywords [] = []"
| "page_events web clock county_name county_slug cached_ids date_from date_to charge_keywords
     (page # pages) =
     Info_scraping page #
     (case web county_slug page of
        Request_exception \<Rightarrow> [Error_fetching page]
      | Other_exception \<Rightarrow>
          Error_parsing page #
          page_events web clock county_name county_slug cached_ids date_from date_to
            charge_keywords pages
      | Response soup \<Rightarrow>
          (if parse_page soup county_name (clock page) = [] then [Info_no_more page]
           else Info_found
                  (length (filter (passes cached_ids date_from date_to charge_keywords)
                             (parse_page soup county_name (clock page)))) page #
                page_events web clock county_name county_slug cached_ids date_from date_to
                  charge_keywords pages))"

text \<open>The log lines written at error level.\<close>

fun is_error :: "log_event \<Rightarrow> bool" where
  "is_error (Error_unsupported c) = True"
| "is_error (Error_fetching p) = True"
| "is_error (Error_parsing p) = True"
| "is_error ev = False"

text \<open>The fingerprints a run starts from.\<close>

definition loaded_ids :: "world \<Rightarrow> string \<Rightarrow> bool \<Rightarrow> string set" where
  "loaded_ids w county_name skip_duplicates =
     (if skip_duplicates then fst (load_cache w county_name) else {})"

text \<open>A world with no cache file, an empty log, no request sent and no table written.\<close>

definition fresh_world :: world where
  "fresh_world = \<lparr>cache_dir = (\<lambda>c. None), logged = [], requests = [], csv_files = []\<rparr>"

text \<open>Example sites. Page 1 of the first holds three named blocks and one block with an empty
  name, every later page holds no block; the second fails from page 2 on; the third lists the
  same person twice on page 1.\<close>

definition page_one :: document where
  "page_one = \<lparr>tagged = [block_of ''John Doe'' ''2024-01-02'', block_of ''Jane Roe'' ''2024-01-03'',
                          block_of [] ''2024-01-04'', block_of ''Max Moe'' ''2024-01-05''],
               posts = []\<rparr>"

definition no_entries :: document where
  "no_entries = \<lparr>tagged = [], posts = []\<rparr>"

definition two_page_site :: "string \<Rightarrow> int \<Rightarrow> page_result" where
  "two_page_site slug page = (if page = 1 then Response page_one else Response no_entries)"

definition failing_site :: "string \<Rightarrow> int \<Rightarrow> page_result" where
  "failing_site slug page = (if page = 1 then Response page_one else Request_exception)"

definition duplicate_site :: "string \<Rightarrow> int \<Rightarrow> page_result" where
  "duplicate_site slug page =
     (if page = 1
      then Response \<lparr>tagged = [block_of ''John Doe'' ''2024-01-02'', block_of ''John Doe'' ''2024-01-02''],
                     posts = []\<rparr>
      else Response no_entries)"

definition stamp :: "int \<Rightarrow> nat \<Rightarrow> string" where
  "stamp page i = ''2024-06-01 12:00:00''"

definition john_doe :: mugshot where
  "john_doe = blank\<lparr>county := ''Nelson'', name := ''John Doe'', booking_date := ''2024-01-02'',
                    scraped_at := ''2024-06-01 12:00:00''\<rparr>"

text \<open>A world whose cache file for \<open>nelson\<close> already holds the fingerprint of John Doe.\<close>

definition seen_john :: world where
  "seen_john = fresh_world\<lparr>cache_dir := (\<lambda>c. if c = ''nelson''
                                               then Some (Readable {''john_doe_2024-01-02''}) else None)\<rparr>"

text \<open>A world whose cache file for \<open>nelson\<close> holds one fingerprint of an earlier run, and
  the fingerprints of the three named blocks of \<open>page_one\<close>.\<close>

definition stored_old :: world where
  "stored_old = fresh_world\<lparr>cache_dir := (\<lambda>c. if c = ''nelson''
                                                then Some (Readable {''old_x_2023-12-31''}) else None)\<rparr>"

definition page_one_ids :: "string set" where
  "page_one_ids = {''john_doe_2024-01-02'', ''jane_roe_2024-01-03'', ''max_moe_2024-01-05''}"

text \<open>Two records of one person, the names in different case; the code points 0xC9 and 0xE9 are
  the upper-case and the lower-case e with acute accent.\<close>

definition jose_upper :: mugshot where
  "jose_upper = blank\<lparr>name := ''JOS'' @ [CHR 0xC9] @ '' Doe'',
                      booking_date := ''2024-01-02'', charges := ''Theft''\<rparr>"

definition jose_lower :: mugshot where
  "jose_lower = blank\<lparr>name := ''jos'' @ [CHR 0xE9] @ '' DOE'',
                      booking_date := ''2024-01-02''\<rparr>"

section \<open>Fingerprints\<close>

lemma letters_distinct: "distinct (upper_letters @ lower_letters)"
  by code_simp

lemma letters_length: "length upper_letters = length lower_letters"
  by code_simp

lemma no_letter: "CHR '' '' \<notin> set (upper_letters @ lower_letters) \<and> CHR ''_'' \<notin> set upper_letters"
  by code_simp

lemma lower_char_cases:
  "(c \<in> set upper_letters \<and> (c, lower_char c) \<in> set (zip upper_letters lower_letters))
   \<or> (c \<notin> set upper_letters \<and> lower_char c = c)"
proof (cases "map_of (zip upper_letters lower_letters) c")
  case None
  then have "c \<notin> set upper_letters"
    by (metis letters_length map_of_zip_is_None)
  then show ?thesis using None by (simp add: lower_char_def)
next
  case (Some d)
  then have "(c, d) \<in> set (zip upper_letters lower_letters)"
    by (rule map_of_SomeD)
  then show ?thesis
    using Some by (auto simp: lower_char_def dest: set_zip_leftD)
qed

lemma lower_char_not_upper: "lower_char c \<notin> set upper_letters"
  using lower_char_cases[of c] letters_distinct by (auto dest: set_zip_rightD)

lemma lower_char_space: "lower_char c = CHR '' '' \<longleftrightarrow> c = CHR '' ''"
  using lower_char_cases[of c] no_letter by (auto dest: set_zip_rightD set_zip_leftD)

lemma lower_char_pair:
  assumes "(c, d) \<in> set (zip upper_letters lower_letters)"
  shows "lower_char c = d \<and> lower_char d = d"
proof -
  have "distinct (map fst (zip upper_letters lower_letters))"
    using letters_distinct by (simp add: letters_length)
  then have "map_of (zip upper_letters lower_letters) c = Some d"
    using assms by (rule map_of_is_SomeI)
  moreover have "d \<in> set lower_letters"
    using assms by (rule set_zip_rightD)
  then have "d \<notin> set upper_letters"
    using letters_distinct by auto
  then have "map_of (zip upper_letters lower_letters) d = None"
    by (auto simp: map_of_eq_None_iff dest: set_zip_leftD)
  ultimately show ?thesis
    by (simp add: lower_char_def)
qed

lemma case_variant_lower: "case_variant c d \<Longrightarrow> lower_char c = lower_char d"
  unfolding case_variant_def using lower_char_pair by metis

lemma py_lower_case_variant: "list_all2 case_variant a b \<Longrightarrow> py_lower a = py_lower b"
  unfolding py_lower_def
  by (induction rule: list_all2_induct) (simp_all add: case_variant_lower)

lemma generate_record_id_chars:
  "generate_record_id r
     = map (\<lambda>c. if c = CHR '' '' then CHR ''_'' else lower_char c)
         (name r @ ''_'' @ booking_date r)"
  by (simp add: generate_record_id_def py_replace_def py_lower_def lower_char_space)

text \<open>
  C6, as stated, fails: the fingerprint is not whitespace-normalized. \<open>John Doe\<close> with one
  space and with two spaces differ only in whitespace, and their fingerprints differ.
\<close>

theorem fingerprint_not_whitespace_normalized:
  "differ_only_in_case_or_whitespace ''John Doe'' ''John  Doe''
   \<and> generate_record_id (blank\<lparr>name := ''John Doe'', booking_date := ''2024-01-02''\<rparr>)
     \<noteq> generate_record_id (blank\<lparr>name := ''John  Doe'', booking_date := ''2024-01-02''\<rparr>)"
  by code_simp

text \<open>
  C6, amended: the fingerprint is a function of the name and the booking date only. It is the
  text name, underscore, booking date, character by character, with every space replaced by an
  underscore and every other character lower-cased, so it holds no upper-case letter and no
  space; nothing else is done to whitespace. Two records whose names and whose booking dates
  agree up to the case of their letters have the same fingerprint; \<open>John Doe\<close> and
  \<open>john doe\<close> booked on 2024-01-02 both have the fingerprint \<open>john_doe_2024-01-02\<close>.
\<close>

theorem fingerprint_case_insensitive:
  "generate_record_id r
     = map (\<lambda>c. if c = CHR '' '' then CHR ''_'' else lower_char c)
         (name r @ ''_'' @ booking_date r)
   \<and> (\<forall>c \<in> set (generate_record_id r). c \<notin> set upper_letters \<and> c \<noteq> CHR '' '')
   \<and> (name r = name r' \<and> booking_date r = booking_date r'
      \<longrightarrow> generate_record_id r = generate_record_id r')
   \<and> (list_all2 case_variant (name r) (name r')
      \<and> list_all2 case_variant (booking_date r) (booking_date r')
      \<longrightarrow> generate_record_id r = generate_record_id r')
   \<and> generate_record_id (blank\<lparr>name := ''John Doe'', booking_date := ''2024-01-02''\<rparr>)
     = ''john_doe_2024-01-02''
   \<and> generate_record_id (blank\<lparr>name := ''John Doe'', booking_date := ''2024-01-02''\<rparr>)
     = generate_record_id (blank\<lparr>name := ''john doe'', booking_date := ''2024-01-02''\<rparr>)"
proof (intro conjI impI ballI)
  show "generate_record_id r
     = map (\<lambda>c. if c = CHR '' '' then CHR ''_'' else lower_char c)
         (name r @ ''_'' @ booking_date r)"
    by (rule generate_record_id_chars)
next
  fix c assume "c \<in> set (generate_record_id r)"
  then have "c \<in> (\<lambda>c. if c = CHR '' '' then CHR ''_'' else lower_char c)
                   ` set (name r @ ''_'' @ booking_date r)"
    unfolding generate_record_id_chars by (simp only: set_map)
  then obtain c0 where c: "c = (if c0 = CHR '' '' then CHR ''_'' else lower_char c0)"
    by blast
  show "c \<notin> set upper_letters"
    using c no_letter lower_char_not_upper[of c0] by (simp split: if_splits)
  show "c \<noteq> CHR '' ''"
    using c lower_char_space[of c0] by (simp split: if_splits)
next
  assume "name r = name r' \<and> booking_date r = booking_date r'"
  then show "generate_record_id r = generate_record_id r'"
    by (simp add: generate_record_id_def)
next
  assume "list_all2 case_variant (name r) (name r')
      \<and> list_all2 case_variant (booking_date r) (booking_date r')"
  then have "py_lower (name r) = py_lower (name r')"
    and "py_lower (booking_date r) = py_lower (booking_date r')"
    by (simp_all add: py_lower_case_variant)
  then show "generate_record_id r = generate_record_id r'"
    by (simp add: generate_record_id_def py_lower_def)
next
  show "generate_record_id (blank\<lparr>name := ''John Doe'', booking_date := ''2024-01-02''\<rparr>)
     = ''john_doe_2024-01-02''"
    by code_simp
  show "generate_record_id (blank\<lparr>name := ''John Doe'', booking_date := ''2024-01-02''\<rparr>)
     = generate_record_id (blank\<lparr>name := ''john doe'', booking_date := ''2024-01-02''\<rparr>)"
    by code_simp
qed

theorem fingerprint_case_insensitive_witness:
  "list_all2 case_variant (name jose_upper) (name jose_lower)
   \<and> list_all2 case_variant (booking_date jose_upper) (booking_date jose_lower)
   \<and> generate_record_id jose_upper = generate_record_id jose_lower
   \<and> generate_record_id jose_lower = ''jos'' @ [CHR 0xE9] @ ''_doe_2024-01-02''"
proof -
  have h: "list_all2 case_variant (name jose_upper) (name jose_lower)
      \<and> list_all2 case_variant (booking_date jose_upper) (booking_date jose_lower)"
    by code_simp
  have v: "map (\<lambda>c. if c = CHR '' '' then CHR ''_'' else lower_char c)
             (name jose_lower @ ''_'' @ booking_date jose_lower)
           = ''jos'' @ [CHR 0xE9] @ ''_doe_2024-01-02''"
    by code_simp
  have e: "generate_record_id jose_upper = generate_record_id jose_lower"
    using h fingerprint_case_insensitive[of jose_upper jose_lower] by blast
  have "generate_record_id jose_lower = ''jos'' @ [CHR 0xE9] @ ''_doe_2024-01-02''"
    by (rule trans[OF fingerprint_case_insensitive[of jose_lower jose_lower, THEN conjunct1] v])
  then show ?thesis
    using h e by blast
qed

section \<open>The filter\<close>

lemma filter_loop_eq:
  "filter_loop date_from date_to charge_keywords records (filtered, cached_ids)
     = (filtered @ filter (passes cached_ids date_from date_to charge_keywords) records, cached_ids)"
  by (induction records arbitrary: filtered) (simp_all add: passes_def)

lemma filter_records_eq:
  "filter_records records cached_ids date_from date_to charge_keywords
     = (filter (passes cached_ids date_from date_to charge_keywords) records, cached_ids)"
  by (simp add: filter_records_def filter_loop_eq)

lemma py_in_sublist: "py_in needle hay \<longleftrightarrow> sublist needle hay"
  by (induction hay) (auto simp: sublist_Cons_right)

lemma keyword_hit_iff:
  "keyword_hit (py_lower text) kws \<longleftrightarrow> (\<exists>kw\<in>set kws. ci_substring kw text)"
  by (simp add: keyword_hit_def list_ex_iff py_in_sublist ci_substring_def)

lemma parse_date_order:
  "parse_date s =
     (if s = [] then None
      else case strptime s fmt_Y_m_d of Some d \<Rightarrow> Some d
           | None \<Rightarrow> (case strptime s fmt_m_d_Y_slash of Some d \<Rightarrow> Some d
           | None \<Rightarrow> (case strptime s fmt_m_d_Y of Some d \<Rightarrow> Some d
           | None \<Rightarrow> strptime s fmt_Y_m_d_slash)))"
  by (simp add: parse_date_def formats_def split: option.splits)

text \<open>
  C7: \<open>_filter_records\<close> hands the cache set back as it received it, and the list it returns
  is the input list restricted to the records that pass the three checks, in their order, so
  it is a sub-sequence of the input.
\<close>

theorem filter_records_pure_subsequence:
  "filter_records records cached_ids date_from date_to charge_keywords
     = (filter (passes cached_ids date_from date_to charge_keywords) records, cached_ids)
   \<and> subseq (fst (filter_records records cached_ids date_from date_to charge_keywords)) records"
  by (simp add: filter_records_eq)

theorem filter_records_pure_subsequence_witness:
  "filter_records
     [blank\<lparr>name := ''A'', charges := ''Speeding''\<rparr>, blank\<lparr>name := ''B'', charges := ''Theft''\<rparr>,
      blank\<lparr>name := ''C'', charges := ''Theft''\<rparr>]
     {''c_''} None None (Some [''theft''])
   = ([blank\<lparr>name := ''B'', charges := ''Theft''\<rparr>], {''c_''})"
proof -
  have "filter (passes {''c_''} None None (Some [''theft'']))
          [blank\<lparr>name := ''A'', charges := ''Speeding''\<rparr>, blank\<lparr>name := ''B'', charges := ''Theft''\<rparr>,
           blank\<lparr>name := ''C'', charges := ''Theft''\<rparr>]
        = [blank\<lparr>name := ''B'', charges := ''Theft''\<rparr>]"
    by code_simp
  then show ?thesis
    using filter_records_pure_subsequence
      [of "[blank\<lparr>name := ''A'', charges := ''Speeding''\<rparr>, blank\<lparr>name := ''B'', charges := ''Theft''\<rparr>,
            blank\<lparr>name := ''C'', charges := ''Theft''\<rparr>]" "{''c_''}" None None "Some [''theft'']"]
    by simp
qed

text \<open>
  C4, as stated, fails: a record whose charges field is empty is kept under the keyword
  \<open>theft\<close>, although no keyword appears in its charges.
\<close>

theorem keyword_filter_keeps_empty_charges:
  "\<not> ci_substring ''theft'' (charges (blank\<lparr>name := ''John Doe''\<rparr>))
   \<and> fst (filter_records [blank\<lparr>name := ''John Doe''\<rparr>] {} None None (Some [''theft'']))
     = [blank\<lparr>name := ''John Doe''\<rparr>]"
  by code_simp

text \<open>
  C4, amended: for a record with a non-empty charges field and a non-empty keyword list, the
  record is among the kept records exactly when it is kept without the keywords and at least
  one keyword appears in its charges as a case-insensitive substring; a record with an empty
  charges field is not touched by the keyword check. Charges \<open>Petit Theft, Resisting\<close> are
  kept under the keyword \<open>theft\<close>, charges \<open>Speeding\<close> are dropped.
\<close>

theorem keyword_filter_on_charges:
  "(kws \<noteq> [] \<and> charges r \<noteq> [] \<longrightarrow>
      (r \<in> set (fst (filter_records rs cached_ids date_from date_to (Some kws)))
       \<longleftrightarrow> r \<in> set (fst (filter_records rs cached_ids date_from date_to None))
           \<and> (\<exists>kw\<in>set kws. ci_substring kw (charges r))))
   \<and> (charges r = [] \<longrightarrow>
      (r \<in> set (fst (filter_records rs cached_ids date_from date_to (Some kws)))
       \<longleftrightarrow> r \<in> set (fst (filter_records rs cached_ids date_from date_to None))))
   \<and> fst (filter_records [blank\<lparr>name := ''John Doe'', charges := ''Petit Theft, Resisting''\<rparr>]
            {} None None (Some [''theft'']))
       = [blank\<lparr>name := ''John Doe'', charges := ''Petit Theft, Resisting''\<rparr>]
   \<and> fst (filter_records [blank\<lparr>name := ''John Doe'', charges := ''Speeding''\<rparr>]
            {} None None (Some [''theft''])) = []"
proof (intro conjI impI)
  show "fst (filter_records [blank\<lparr>name := ''John Doe'', charges := ''Petit Theft, Resisting''\<rparr>]
            {} None None (Some [''theft'']))
       = [blank\<lparr>name := ''John Doe'', charges := ''Petit Theft, Resisting''\<rparr>]"
    by code_simp
  show "fst (filter_records [blank\<lparr>name := ''John Doe'', charges := ''Speeding''\<rparr>]
            {} None None (Some [''theft''])) = []"
    by code_simp
qed (auto simp: filter_records_eq passes_def keywords_excluded_def keyword_hit_iff)

theorem keyword_filter_on_charges_witness:
  "[''theft'', ''assault''] \<noteq> [] \<and> charges (blank\<lparr>name := ''Jane Roe'', charges := ''DUI; ASSAULT 4th''\<rparr>) \<noteq> []
   \<and> (blank\<lparr>name := ''Jane Roe'', charges := ''DUI; ASSAULT 4th''\<rparr>
        \<in> set (fst (filter_records [blank\<lparr>name := ''Jane Roe'', charges := ''DUI; ASSAULT 4th''\<rparr>]
                     {} None None (Some [''theft'', ''assault'']))))"
proof -
  have h: "[''theft'', ''assault''] \<noteq> [] \<and> charges (blank\<lparr>name := ''Jane Roe'', charges := ''DUI; ASSAULT 4th''\<rparr>) \<noteq> []"
    by code_simp
  have k: "ci_substring ''assault'' (charges (blank\<lparr>name := ''Jane Roe'', charges := ''DUI; ASSAULT 4th''\<rparr>))"
    by code_simp
  have n: "blank\<lparr>name := ''Jane Roe'', charges := ''DUI; ASSAULT 4th''\<rparr>
        \<in> set (fst (filter_records [blank\<lparr>name := ''Jane Roe'', charges := ''DUI; ASSAULT 4th''\<rparr>]
                     {} None None None))"
    by code_simp
  have "\<exists>kw\<in>set [''theft'', ''assault'']. ci_substring kw (charges (blank\<lparr>name := ''Jane Roe'', charges := ''DUI; ASSAULT 4th''\<rparr>))"
    using k by simp
  then show ?thesis
    using h n keyword_filter_on_charges
      [of "[''theft'', ''assault'']" "blank\<lparr>name := ''Jane Roe'', charges := ''DUI; ASSAULT 4th''\<rparr>"
          "[blank\<lparr>name := ''Jane Roe'', charges := ''DUI; ASSAULT 4th''\<rparr>]" "{}" None None]
    by blast
qed

text \<open>
  C5: \<open>_parse_date\<close> tries the formats \<open>%Y-%m-%d\<close>, \<open>%m/%d/%Y\<close>, \<open>%m-%d-%Y\<close>,
  \<open>%Y/%m/%d\<close> in this order and the first success wins. With a date criterion set, a record
  whose booking date parses to a date before \<open>date_from\<close> or after \<open>date_to\<close> is dropped; one
  whose booking date parses to a date inside the inclusive range, or does not parse at all, is
  kept exactly when it is kept without the date criteria. A booking date 2024-03-01 is dropped
  under the range 2024-02-01 to 2024-02-28, a booking date \<open>March 1st\<close> is kept under any
  range.
\<close>

theorem date_filter_parsed_range:
  "parse_date s =
     (if s = [] then None
      else case strptime s fmt_Y_m_d of Some d \<Rightarrow> Some d
           | None \<Rightarrow> (case strptime s fmt_m_d_Y_slash of Some d \<Rightarrow> Some d
           | None \<Rightarrow> (case strptime s fmt_m_d_Y of Some d \<Rightarrow> Some d
           | None \<Rightarrow> strptime s fmt_Y_m_d_slash)))
   \<and> (parse_date (booking_date r) = Some bd
        \<and> ((\<exists>f. date_from = Some f \<and> dt_less bd f) \<or> (\<exists>t. date_to = Some t \<and> dt_less t bd))
      \<longrightarrow> r \<notin> set (fst (filter_records rs cached_ids date_from date_to charge_keywords)))
   \<and> (parse_date (booking_date r) = Some bd
        \<and> (\<forall>f. date_from = Some f \<longrightarrow> \<not> dt_less bd f) \<and> (\<forall>t. date_to = Some t \<longrightarrow> \<not> dt_less t bd)
      \<longrightarrow> (r \<in> set (fst (filter_records rs cached_ids date_from date_to charge_keywords))
           \<longleftrightarrow> r \<in> set (fst (filter_records rs cached_ids None None charge_keywords))))
   \<and> (parse_date (booking_date r) = None
      \<longrightarrow> (r \<in> set (fst (filter_records rs cached_ids date_from date_to charge_keywords))
           \<longleftrightarrow> r \<in> set (fst (filter_records rs cached_ids None None charge_keywords))))
   \<and> fst (filter_records [blank\<lparr>name := ''John Doe'', booking_date := ''2024-03-01''\<rparr>] {}
            (Some (midnight 2024 2 1)) (Some (midnight 2024 2 28)) None) = []
   \<and> fst (filter_records [blank\<lparr>name := ''John Doe'', booking_date := ''March 1st''\<rparr>] {}
            date_from date_to None) = [blank\<lparr>name := ''John Doe'', booking_date := ''March 1st''\<rparr>]"
proof (intro conjI impI)
  show "fst (filter_records [blank\<lparr>name := ''John Doe'', booking_date := ''2024-03-01''\<rparr>] {}
            (Some (midnight 2024 2 1)) (Some (midnight 2024 2 28)) None) = []"
    by code_simp
  have "parse_date ''March 1st'' = None"
    by code_simp
  then show "fst (filter_records [blank\<lparr>name := ''John Doe'', booking_date := ''March 1st''\<rparr>] {}
            date_from date_to None) = [blank\<lparr>name := ''John Doe'', booking_date := ''March 1st''\<rparr>]"
    by (simp add: filter_records_eq passes_def date_excluded_def keywords_excluded_def blank_def)
qed (auto simp: parse_date_order filter_records_eq passes_def date_excluded_def split: option.splits)

theorem date_filter_parsed_range_witness:
  "parse_date (booking_date (blank\<lparr>name := ''A'', booking_date := ''03/01/2024''\<rparr>)) = Some (midnight 2024 3 1)
   \<and> dt_less (midnight 2024 2 28) (midnight 2024 3 1)
   \<and> blank\<lparr>name := ''A'', booking_date := ''03/01/2024''\<rparr>
       \<notin> set (fst (filter_records [blank\<lparr>name := ''A'', booking_date := ''03/01/2024''\<rparr>] {}
                    (Some (midnight 2024 2 1)) (Some (midnight 2024 2 28)) None))
   \<and> parse_date (booking_date (blank\<lparr>name := ''B'', booking_date := ''2-28-2024''\<rparr>)) = Some (midnight 2024 2 28)
   \<and> \<not> dt_less (midnight 2024 2 28) (midnight 2024 2 1) \<and> \<not> dt_less (midnight 2024 2 28) (midnight 2024 2 28)
   \<and> blank\<lparr>name := ''B'', booking_date := ''2-28-2024''\<rparr>
       \<in> set (fst (filter_records [blank\<lparr>name := ''B'', booking_date := ''2-28-2024''\<rparr>] {}
                    (Some (midnight 2024 2 1)) (Some (midnight 2024 2 28)) None))
   \<and> parse_date (booking_date (blank\<lparr>name := ''C'', booking_date := ''2024-02-30''\<rparr>)) = None
   \<and> blank\<lparr>name := ''C'', booking_date := ''2024-02-30''\<rparr>
       \<in> set (fst (filter_records [blank\<lparr>name := ''C'', booking_date := ''2024-02-30''\<rparr>] {}
                    (Some (midnight 2024 2 1)) (Some (midnight 2024 2 28)) None))"
proof -
  have a: "parse_date (booking_date (blank\<lparr>name := ''A'', booking_date := ''03/01/2024''\<rparr>)) = Some (midnight 2024 3 1)"
    by code_simp
  have a': "dt_less (midnight 2024 2 28) (midnight 2024 3 1)"
    by code_simp
  have b: "parse_date (booking_date (blank\<lparr>name := ''B'', booking_date := ''2-28-2024''\<rparr>)) = Some (midnight 2024 2 28)"
    by code_simp
  have b': "\<not> dt_less (midnight 2024 2 28) (midnight 2024 2 1) \<and> \<not> dt_less (midnight 2024 2 28) (midnight 2024 2 28)"
    by code_simp
  have b'': "blank\<lparr>name := ''B'', booking_date := ''2-28-2024''\<rparr>
       \<in> set (fst (filter_records [blank\<lparr>name := ''B'', booking_date := ''2-28-2024''\<rparr>] {} None None None))"
    by code_simp
  have c: "parse_date (booking_date (blank\<lparr>name := ''C'', booking_date := ''2024-02-30''\<rparr>)) = None"
    by code_simp
  have c': "blank\<lparr>name := ''C'', booking_date := ''2024-02-30''\<rparr>
       \<in> set (fst (filter_records [blank\<lparr>name := ''C'', booking_date := ''2024-02-30''\<rparr>] {} None None None))"
    by code_simp
  have 1: "blank\<lparr>name := ''A'', booking_date := ''03/01/2024''\<rparr>
       \<notin> set (fst (filter_records [blank\<lparr>name := ''A'', booking_date := ''03/01/2024''\<rparr>] {}
                    (Some (midnight 2024 2 1)) (Some (midnight 2024 2 28)) None))"
    using a a' date_filter_parsed_range
      [of "[]" "blank\<lparr>name := ''A'', booking_date := ''03/01/2024''\<rparr>" "midnight 2024 3 1"
          "Some (midnight 2024 2 1)" "Some (midnight 2024 2 28)"
          "[blank\<lparr>name := ''A'', booking_date := ''03/01/2024''\<rparr>]" "{}" None]
    by blast
  have 2: "blank\<lparr>name := ''B'', booking_date := ''2-28-2024''\<rparr>
       \<in> set (fst (filter_records [blank\<lparr>name := ''B'', booking_date := ''2-28-2024''\<rparr>] {}
                    (Some (midnight 2024 2 1)) (Some (midnight 2024 2 28)) None))"
    using b b' b'' date_filter_parsed_range
      [of "[]" "blank\<lparr>name := ''B'', booking_date := ''2-28-2024''\<rparr>" "midnight 2024 2 28"
          "Some (midnight 2024 2 1)" "Some (midnight 2024 2 28)"
          "[blank\<lparr>name := ''B'', booking_date := ''2-28-2024''\<rparr>]" "{}" None]
    by auto
  have 3: "blank\<lparr>name := ''C'', booking_date := ''2024-02-30''\<rparr>
       \<in> set (fst (filter_records [blank\<lparr>name := ''C'', booking_date := ''2024-02-30''\<rparr>] {}
                    (Some (midnight 2024 2 1)) (Some (midnight 2024 2 28)) None))"
    using c c' date_filter_parsed_range
      [of "[]" "blank\<lparr>name := ''C'', booking_date := ''2024-02-30''\<rparr>" "midnight 2024 3 1"
          "Some (midnight 2024 2 1)" "Some (midnight 2024 2 28)"
          "[blank\<lparr>name := ''C'', booking_date := ''2024-02-30''\<rparr>]" "{}" None]
    by blast
  show ?thesis
    using a a' b b' c 1 2 3 by blast
qed

section \<open>The page parser\<close>

lemma extract_record_data_shape:
  obtains body where
    "\<And>now. extract_record_data e c now
        = (if name body \<noteq> [] then Some (body\<lparr>scraped_at := now\<rparr>) else None)"
    and "name body = (case name_elem e of Some t \<Rightarrow> t | None \<Rightarrow> [])"
proof -
  define r0 where "r0 now = \<lparr>county = py_title c, name = [], age = [], height = [], weight = [],
      hair_color = [], eye_color = [], sex = [], race = [], booking_date = [],
      arrested_by = [], charges = [], bond_amount = [], mugshot_url = [], scraped_at = now\<rparr>" for now
  define r1 where "r1 now = (case name_elem e of Some t \<Rightarrow> (r0 now)\<lparr>name := t\<rparr> | None \<Rightarrow> r0 now)" for now
  define r2 where "r2 now = (case img_src e of
      Some src \<Rightarrow> (if src \<noteq> [] then (r1 now)\<lparr>mugshot_url := src\<rparr> else r1 now)
    | None \<Rightarrow> r1 now)" for now
  define r3 where "r3 now = (r2 now)\<lparr>age := extract_pattern (re_age e) False,
      height := extract_pattern (re_height e) False,
      weight := extract_pattern (re_weight e) False,
      hair_color := extract_pattern (re_hair e) False,
      eye_color := extract_pattern (re_eye e) False,
      sex := extract_pattern (re_sex e) False,
      race := extract_pattern (re_race e) False\<rparr>" for now
  define r4 where "r4 now = (if extract_pattern (re_booked e) False \<noteq> []
      then (r3 now)\<lparr>booking_date := extract_pattern (re_booked e) False\<rparr> else r3 now)" for now
  define r5 where "r5 now = (if extract_pattern (re_arrested_by e) True \<noteq> []
      then (r4 now)\<lparr>arrested_by := extract_pattern (re_arrested_by e) True\<rparr> else r4 now)" for now
  define r6 where "r6 now = (if extract_pattern (re_bond e) False \<noteq> []
      then (r5 now)\<lparr>bond_amount := extract_pattern (re_bond e) False\<rparr> else r5 now)" for now
  define r7 where "r7 now = (case re_charges e of
      Some group1 \<Rightarrow> (r6 now)\<lparr>charges := py_strip group1\<rparr> | None \<Rightarrow> r6 now)" for now
  have eq: "extract_record_data e c now = (if name (r7 now) \<noteq> [] then Some (r7 now) else None)" for now
    unfolding extract_record_data_def Let_def r7_def r6_def r5_def r4_def r3_def r2_def r1_def r0_def
    by (rule refl)
  have s0: "r0 now = (r0 now')\<lparr>scraped_at := now\<rparr>" "name (r0 now) = []" for now now'
    by (simp_all add: r0_def)
  have s1: "r1 now = (r1 now')\<lparr>scraped_at := now\<rparr>"
      "name (r1 now) = (case name_elem e of Some t \<Rightarrow> t | None \<Rightarrow> [])" for now now'
    using s0(1)[of now now'] s0(2) by (simp_all add: r1_def split: option.splits)
  have s2: "r2 now = (r2 now')\<lparr>scraped_at := now\<rparr>" "name (r2 now) = name (r1 now)" for now now'
    using s1(1)[of now now'] by (simp_all add: r2_def split: option.splits)
  have s3: "r3 now = (r3 now')\<lparr>scraped_at := now\<rparr>" "name (r3 now) = name (r2 now)" for now now'
    using s2(1)[of now now'] by (simp_all add: r3_def)
  have s4: "r4 now = (r4 now')\<lparr>scraped_at := now\<rparr>" "name (r4 now) = name (r3 now)" for now now'
    using s3(1)[of now now'] by (simp_all add: r4_def)
  have s5: "r5 now = (r5 now')\<lparr>scraped_at := now\<rparr>" "name (r5 now) = name (r4 now)" for now now'
    using s4(1)[of now now'] by (simp_all add: r5_def)
  have s6: "r6 now = (r6 now')\<lparr>scraped_at := now\<rparr>" "name (r6 now) = name (r5 now)" for now now'
    using s5(1)[of now now'] by (simp_all add: r6_def)
  have s7: "r7 now = (r7 now')\<lparr>scraped_at := now\<rparr>" "name (r7 now) = name (r6 now)" for now now'
    using s6(1)[of now now'] by (simp_all add: r7_def split: option.splits)
  have nm: "name (r7 now) = (case name_elem e of Some t \<Rightarrow> t | None \<Rightarrow> [])" for now
    by (simp only: s7(2) s6(2) s5(2) s4(2) s3(2) s2(2) s1(2))
  show thesis
  proof (rule that[of "r7 []"])
    fix now
    show "extract_record_data e c now
        = (if name (r7 []) \<noteq> [] then Some ((r7 [])\<lparr>scraped_at := now\<rparr>) else None)"
      using s7(1)[of now "[]"] nm[of now] nm[of "[]"] by (simp add: eq)
    show "name (r7 []) = (case name_elem e of Some t \<Rightarrow> t | None \<Rightarrow> [])"
      by (rule nm)
  qed
qed

lemma extract_record_data_name:
  "extract_record_data e county_name now = Some r \<Longrightarrow> name_elem e = Some (name r) \<and> name r \<noteq> []"
  by (rule extract_record_data_shape[of e county_name]) (auto split: option.splits if_splits)

lemma extract_record_data_None:
  "extract_record_data e county_name now = None \<longleftrightarrow> (name_elem e = None \<or> name_elem e = Some [])"
  by (rule extract_record_data_shape[of e county_name]) (auto split: option.splits if_splits)


lemma parse_entries_names:
  "map name (parse_entries es county_name clock i) = candidate_names es"
proof (induction es county_name clock i rule: parse_entries.induct)
  case (3 e es county_name clock i)
  show ?case
  proof (cases "extract_record_data e county_name (clock i)")
    case None
    then have "name_elem e = None \<or> name_elem e = Some []"
      by (simp add: extract_record_data_None)
    then show ?thesis using None 3 by auto
  next
    case (Some r)
    then have "name_elem e = Some (name r) \<and> name r \<noteq> []"
      by (rule extract_record_data_name)
    then show ?thesis using Some 3 by simp
  qed
qed simp_all

lemma candidate_names_nonempty: "t \<in> set (candidate_names es) \<Longrightarrow> t \<noteq> []"
  by (induction es rule: candidate_names.induct) (auto split: option.splits if_splits)

lemma parse_page_names:
  "map name (parse_page soup county_name clock)
     = candidate_names (if tagged soup = [] then posts soup else tagged soup)"
  by (simp add: parse_page_def parse_entries_names)

text \<open>
  C3: no record that \<open>_parse_page\<close> returns has an empty name; a block whose name element is
  missing or has an empty text gives no record and the parse goes on with the next block.
\<close>

theorem parse_page_names_nonempty:
  "(\<forall>r \<in> set (parse_page soup county_name clock). name r \<noteq> [])
   \<and> (name_elem e = None \<or> name_elem e = Some [] \<longrightarrow>
        extract_record_data e county_name now = None
        \<and> parse_entries (Block e # es) county_name clock i = parse_entries es county_name clock (Suc i))"
proof (intro conjI ballI impI)
  fix r assume "r \<in> set (parse_page soup county_name clock)"
  then have "name r \<in> set (map name (parse_page soup county_name clock))"
    by simp
  then show "name r \<noteq> []"
    unfolding parse_page_names by (rule candidate_names_nonempty)
next
  assume h: "name_elem e = None \<or> name_elem e = Some []"
  then show "extract_record_data e county_name now = None"
    by (simp add: extract_record_data_None)
  from h have "extract_record_data e county_name (clock i) = None"
    by (simp add: extract_record_data_None)
  then show "parse_entries (Block e # es) county_name clock i = parse_entries es county_name clock (Suc i)"
    by simp
qed

theorem parse_page_names_nonempty_witness:
  "name (hd (parse_page \<lparr>tagged = [block_of ''John Doe'' ''2024-01-02'', block_of [] ''2024-01-03''], posts = []\<rparr>
               ''nelson'' (\<lambda>i. ''t''))) \<noteq> []
   \<and> length (parse_page \<lparr>tagged = [block_of ''John Doe'' ''2024-01-02'', block_of [] ''2024-01-03''], posts = []\<rparr>
                ''nelson'' (\<lambda>i. ''t'')) = 1
   \<and> name_elem (no_match\<lparr>name_elem := Some []\<rparr>) = Some []
   \<and> extract_record_data (no_match\<lparr>name_elem := Some []\<rparr>) ''nelson'' ''t'' = None"
proof -
  have len: "length (parse_page \<lparr>tagged = [block_of ''John Doe'' ''2024-01-02'', block_of [] ''2024-01-03''], posts = []\<rparr>
                ''nelson'' (\<lambda>i. ''t'')) = 1"
    by code_simp
  then have "hd (parse_page \<lparr>tagged = [block_of ''John Doe'' ''2024-01-02'', block_of [] ''2024-01-03''], posts = []\<rparr>
                ''nelson'' (\<lambda>i. ''t''))
      \<in> set (parse_page \<lparr>tagged = [block_of ''John Doe'' ''2024-01-02'', block_of [] ''2024-01-03''], posts = []\<rparr>
                ''nelson'' (\<lambda>i. ''t''))"
    by (intro hd_in_set) auto
  moreover have "name_elem (no_match\<lparr>name_elem := Some []\<rparr>) = Some []"
    by simp
  ultimately show ?thesis
    using len parse_page_names_nonempty
      [of "\<lparr>tagged = [block_of ''John Doe'' ''2024-01-02'', block_of [] ''2024-01-03''], posts = []\<rparr>"
          "''nelson''" "\<lambda>i. ''t''" "no_match\<lparr>name_elem := Some []\<rparr>" "''t''"]
    by blast
qed

section \<open>One run over a county\<close>

lemma add_record_ids_eq:
  "add_record_ids ids rs = ids \<union> generate_record_id ` set rs"
  unfolding add_record_ids_def
  by (induction rs arbitrary: ids) auto

lemma scrape_pages_eq:
  "scrape_pages web clock county_name slug date_from date_to kws pages (acc, ids, cached, w) =
     (acc @ filter (passes cached date_from date_to kws) (parsed_records web clock county_name slug pages),
      ids \<union> generate_record_id ` set (filter (passes cached date_from date_to kws)
                                          (parsed_records web clock county_name slug pages)),
      cached,
      w\<lparr>logged := logged w @ page_events web clock county_name slug cached date_from date_to kws pages,
        requests := requests w @ map (Pair slug) (pages_requested web clock county_name slug pages)\<rparr>)"
proof (induction pages arbitrary: acc ids w)
  case Nil
  show ?case by simp
next
  case (Cons page pages)
  show ?case
  proof (cases "web slug page")
    case Request_exception
    then show ?thesis by (simp add: emit_def)
  next
    case Other_exception
    then show ?thesis by (simp add: emit_def Cons.IH)
  next
    case (Response soup)
    then show ?thesis
      by (auto simp: emit_def Cons.IH filter_records_eq add_record_ids_eq Let_def)
  qed
qed


lemma load_cache_cache_dir: "cache_dir (snd (load_cache w c)) = cache_dir w"
  by (simp add: load_cache_def emit_def split: option.splits cache_file.splits)

lemma load_cache_requests: "requests (snd (load_cache w c)) = requests w"
  by (simp add: load_cache_def emit_def split: option.splits cache_file.splits)

lemma load_cache_logged:
  "\<exists>evs. logged (snd (load_cache w c)) = logged w @ evs \<and> filter is_error evs = []"
  by (simp add: load_cache_def emit_def split: option.splits cache_file.splits)

lemma log_filters_frame:
  "cache_dir (log_filters date_from date_to kws w) = cache_dir w"
  "requests (log_filters date_from date_to kws w) = requests w"
  by (simp_all add: log_filters_def emit_def Let_def split: option.splits)

lemma log_filters_logged:
  "\<exists>evs. logged (log_filters date_from date_to kws w) = logged w @ evs \<and> filter is_error evs = []"
  by (simp add: log_filters_def emit_def Let_def split: option.splits)

lemma scrape_county_unsupported:
  "map_of counties (py_lower county_name) = None \<Longrightarrow>
   scrape_county web clock outcome w county_name max_pages date_from date_to kws skip
     = ([], emit (Error_unsupported county_name) w)"
  by (simp add: scrape_county_def)

lemma scrape_county_records:
  assumes "map_of counties (py_lower county_name) = Some slug"
  shows "fst (scrape_county web clock outcome w county_name max_pages date_from date_to kws skip)
     = filter (passes (loaded_ids w county_name skip) date_from date_to kws)
         (parsed_records web clock county_name slug [1..max_pages])"
  using assms
  by (simp add: scrape_county_def loaded_ids_def scrape_pages_eq Let_def split: prod.splits)

lemma scrape_county_cache_dir:
  assumes "map_of counties (py_lower county_name) = Some slug"
  shows "cache_dir (snd (scrape_county web clock outcome w county_name max_pages date_from date_to kws skip))
     = (if skip \<and> fst (scrape_county web clock outcome w county_name max_pages date_from date_to kws skip) \<noteq> []
        then (case outcome of
                Written \<Rightarrow> (cache_dir w)(county_name \<mapsto> Readable
                   (loaded_ids w county_name skip
                    \<union> generate_record_id ` set (fst (scrape_county web clock outcome w county_name max_pages date_from date_to kws skip))))
              | Write_failed left \<Rightarrow> (cache_dir w)(county_name := left))
        else cache_dir w)"
  using assms load_cache_cache_dir[of w county_name]
  by (auto simp: scrape_county_def loaded_ids_def scrape_pages_eq Let_def emit_def save_cache_def
        log_filters_frame filter_empty_conv split: prod.splits write_outcome.splits)

lemma scrape_county_requests:
  assumes "map_of counties (py_lower county_name) = Some slug"
  shows "requests (snd (scrape_county web clock outcome w county_name max_pages date_from date_to kws skip))
     = requests w @ map (Pair slug) (pages_requested web clock county_name slug [1..max_pages])"
  using assms load_cache_requests[of w county_name]
  by (auto simp: scrape_county_def scrape_pages_eq Let_def emit_def save_cache_def
        log_filters_frame split: prod.splits write_outcome.splits)

lemma scrape_county_logged:
  assumes "map_of counties (py_lower county_name) = Some slug"
  shows "\<exists>pre post. logged (snd (scrape_county web clock outcome w county_name max_pages date_from date_to kws skip))
     = logged w @ pre @ page_events web clock county_name slug (loaded_ids w county_name skip)
                          date_from date_to kws [1..max_pages] @ post
     \<and> filter is_error pre = [] \<and> filter is_error post = []"
proof -
  obtain cached w1 where l: "(if skip then load_cache w county_name else ({}, w)) = (cached, w1)"
    by (cases "if skip then load_cache w county_name else ({}, w)") auto
  then have c: "cached = loaded_ids w county_name skip"
    by (auto simp: loaded_ids_def split: if_splits)
  from l obtain e1 where e1: "logged w1 = logged w @ e1" "filter is_error e1 = []"
    using load_cache_logged[of w county_name] by (cases skip) auto
  obtain e2 where e2: "logged (log_filters date_from date_to kws (emit (Info_starting county_name) w1))
      = logged (emit (Info_starting county_name) w1) @ e2" "filter is_error e2 = []"
    using log_filters_logged by blast
  let ?pre = "e1 @ [Info_starting county_name] @ e2"
  have "\<exists>post. logged (snd (scrape_county web clock outcome w county_name max_pages date_from date_to kws skip))
     = logged w @ ?pre @ page_events web clock county_name slug cached
                          date_from date_to kws [1..max_pages] @ post
     \<and> filter is_error post = []"
    using assms l e1 e2
    by (auto simp: scrape_county_def scrape_pages_eq Let_def emit_def save_cache_def
          split: prod.splits write_outcome.splits)
  then obtain post where "logged (snd (scrape_county web clock outcome w county_name max_pages date_from date_to kws skip))
     = logged w @ ?pre @ page_events web clock county_name slug cached
                          date_from date_to kws [1..max_pages] @ post"
     and "filter is_error post = []"
    by blast
  then show ?thesis
    using e1 e2 c by (intro exI[of _ ?pre] exI[of _ post]) simp
qed

lemma load_cache_ids:
  "fst (load_cache w c) = (case cache_dir w c of Some (Readable ids) \<Rightarrow> ids | _ \<Rightarrow> {})"
  by (simp add: load_cache_def split: option.splits cache_file.splits)

lemma candidate_names_append:
  "candidate_names (a @ b) = candidate_names a @ candidate_names b"
  by (induction a rule: candidate_names.induct) (simp_all split: option.splits)

lemma candidate_names_valid:
  "\<forall>cand \<in> set es. \<exists>e t. cand = Block e \<and> name_elem e = Some t \<and> t \<noteq> [] \<Longrightarrow>
   length (candidate_names es) = length es"
  by (induction es rule: candidate_names.induct) auto

lemma passes_no_criteria: "passes {} None None None r"
  by (simp add: passes_def date_excluded_def keywords_excluded_def)











lemma parsed_records_stop:
  "web slug n = Request_exception \<Longrightarrow>
   parsed_records web clock c slug (ps @ n # qs) = parsed_records web clock c slug ps"
  by (induction ps) (simp_all split: page_result.splits)

lemma pages_requested_stop:
  "web slug n = Request_exception \<Longrightarrow>
   pages_requested web clock c slug (ps @ n # qs) = pages_requested web clock c slug (ps @ [n])"
  by (induction ps) (simp_all split: page_result.splits)

lemma page_events_stop:
  "web slug n = Request_exception \<Longrightarrow>
   page_events web clock c slug cached date_from date_to kws (ps @ n # qs)
     = page_events web clock c slug cached date_from date_to kws (ps @ [n])"
  by (induction ps) (simp_all split: page_result.splits)

lemma scrape_pages_stop:
  assumes "web slug n = Request_exception"
  shows "scrape_pages web clock c slug date_from date_to kws (ps @ n # qs) (acc, ids, cached, w)
     = scrape_pages web clock c slug date_from date_to kws (ps @ [n]) (acc, ids, cached, w)"
  unfolding scrape_pages_eq
  using assms
  by (simp add: parsed_records_stop[where qs = qs] parsed_records_stop[where qs = "[]"]
        pages_requested_stop[where qs = qs] page_events_stop[where qs = qs])

lemma pages_requested_prefix: "prefix (pages_requested web clock c slug pages) pages"
  by (induction pages) (simp_all split: page_result.splits)

lemma page_events_error:
  "n \<in> set (pages_requested web clock c slug pages) \<Longrightarrow> web slug n = Request_exception \<Longrightarrow>
   Error_fetching n \<in> set (page_events web clock c slug cached date_from date_to kws pages)"
  by (induction pages) (auto split: page_result.splits if_splits)

lemma upto_around: "1 \<le> n \<Longrightarrow> n \<le> m \<Longrightarrow> [1..m] = [1..n - 1] @ n # [n + 1..m]"
  by (rule upto_split3)

lemma upto_last: "1 \<le> n \<Longrightarrow> [1..n] = [1..n - 1] @ [n]"
  using upto_split3[of 1 n n] by simp

lemma scrape_county_stop:
  assumes "map_of counties (py_lower county_name) = Some slug"
    and "web slug n = Request_exception" and "1 \<le> n" and "n \<le> max_pages"
  shows "scrape_county web clock outcome w county_name max_pages date_from date_to kws skip
     = scrape_county web clock outcome w county_name n date_from date_to kws skip"
proof -
  have "scrape_pages web clock county_name slug date_from date_to kws [1..max_pages] st
      = scrape_pages web clock county_name slug date_from date_to kws [1..n] st" for st
    using scrape_pages_stop[where web = web and slug = slug and n = n and ps = "[1..n - 1]"
          and qs = "[n + 1..max_pages]" and clock = clock and c = county_name
          and date_from = date_from and date_to = date_to and kws = kws]
      assms(2) upto_around[OF assms(3,4)] upto_last[OF assms(3)]
    by (cases st) simp
  then show ?thesis
    using assms(1) by (simp add: scrape_county_def)
qed

lemma scrape_county_before:
  assumes "map_of counties (py_lower county_name) = Some slug"
    and "web slug n = Request_exception" and "1 \<le> n"
  shows "fst (scrape_county web clock outcome w county_name n date_from date_to kws skip)
     = fst (scrape_county web clock outcome w county_name (n - 1) date_from date_to kws skip)"
  using parsed_records_stop[where web = web and slug = slug and n = n and ps = "[1..n - 1]"
        and qs = "[]" and clock = clock and c = county_name]
    assms(2) upto_last[OF assms(3)]
  by (simp add: scrape_county_records[OF assms(1)])

lemma scrape_county_depends_on_own_cache:
  assumes "cache_dir w c = cache_dir w' c"
  shows "fst (scrape_county web clock outcome w c max_pages date_from date_to kws skip)
     = fst (scrape_county web clock outcome w' c max_pages date_from date_to kws skip)"
proof (cases "map_of counties (py_lower c)")
  case None
  then show ?thesis by (simp add: scrape_county_unsupported)
next
  case (Some slug)
  have "loaded_ids w c skip = loaded_ids w' c skip"
    using assms by (simp add: loaded_ids_def load_cache_ids)
  then show ?thesis
    by (simp add: scrape_county_records[OF Some])
qed

lemma scrape_county_other_cache:
  assumes "c' \<noteq> c"
  shows "cache_dir (snd (scrape_county web clock outcome w c max_pages date_from date_to kws skip)) c'
     = cache_dir w c'"
proof (cases "map_of counties (py_lower c)")
  case None
  then show ?thesis by (simp add: scrape_county_unsupported emit_def)
next
  case (Some slug)
  show ?thesis
    using assms by (simp add: scrape_county_cache_dir[OF Some] split: write_outcome.splits)
qed

lemma save_to_csv_cache_dir: "cache_dir (save_to_csv records c w) = cache_dir w"
  by (simp add: save_to_csv_def emit_def)

lemma scrape_counties_untouched:
  "c \<notin> set names \<Longrightarrow>
   fst (scrape_counties web clocks outcomes max_pages date_from date_to kws skip names (results, w)) c
     = results c"
proof (induction names arbitrary: results w)
  case Nil
  show ?case by simp
next
  case (Cons a names)
  then show ?case
    by (simp add: Let_def split: prod.splits)
qed

lemma scrape_counties_results:
  "distinct names \<Longrightarrow> c \<in> set names \<Longrightarrow> cache_dir w c = cache_dir w0 c \<Longrightarrow>
   fst (scrape_counties web clocks outcomes max_pages date_from date_to kws skip names (results, w)) c
     = Some (fst (scrape_county web (clocks c) (outcomes c) w0 c max_pages date_from date_to kws skip))"
proof (induction names arbitrary: results w)
  case Nil
  then show ?case by simp
next
  case (Cons a names)
  let ?w = "emit (Info_processing a) w"
  obtain records w' where run: "scrape_county web (clocks a) (outcomes a) ?w a max_pages
      date_from date_to kws skip = (records, w')"
    by (cases "scrape_county web (clocks a) (outcomes a) ?w a max_pages date_from date_to kws skip")
  let ?w'' = "if records \<noteq> [] then save_to_csv records a w' else w'"
  have step: "scrape_counties web clocks outcomes max_pages date_from date_to kws skip (a # names) (results, w)
      = scrape_counties web clocks outcomes max_pages date_from date_to kws skip names
          (results(a \<mapsto> records), ?w'')"
    by (simp add: run Let_def)
  show ?case
  proof (cases "a = c")
    case True
    have "c \<notin> set names"
      using Cons.prems(1) True by simp
    then have "fst (scrape_counties web clocks outcomes max_pages date_from date_to kws skip names
          (results(a \<mapsto> records), ?w'')) c = Some records"
      using True by (simp add: scrape_counties_untouched)
    moreover have "records = fst (scrape_county web (clocks c) (outcomes c) w0 c max_pages date_from date_to kws skip)"
      using run True Cons.prems(3)
        scrape_county_depends_on_own_cache[of ?w c w0 web "clocks c" "outcomes c" max_pages date_from date_to kws skip]
      by (simp add: emit_def)
    ultimately show ?thesis
      unfolding step by simp
  next
    case False
    have "cache_dir w' c = cache_dir ?w c"
      using scrape_county_other_cache[of c a web "clocks a" "outcomes a" ?w max_pages date_from date_to kws skip]
        False run by simp
    then have cd: "cache_dir ?w'' c = cache_dir w0 c"
      using Cons.prems(3) by (simp add: save_to_csv_cache_dir emit_def)
    have d: "distinct names" and m: "c \<in> set names"
      using Cons.prems(1,2) False by auto
    show ?thesis
      unfolding step by (rule Cons.IH[OF d m cd])
  qed
qed

lemma counties_distinct: "distinct (map fst counties)"
  by code_simp

section \<open>Properties of a run\<close>

text \<open>
  C2, as stated, fails: a run that keeps three records and whose cache write raises after
  \<open>open\<close> has truncated the file (the exception is caught in \<open>save_cache\<close>) leaves a file
  that loads as the empty set, so the fingerprint stored before the run is lost.
\<close>

theorem failed_write_loses_stored_fingerprints:
  "fst (load_cache stored_old ''nelson'') = {''old_x_2023-12-31''}
   \<and> length (fst (scrape_county two_page_site stamp (Write_failed (Some Unreadable)) stored_old
                     ''nelson'' 5 None None None True)) = 3
   \<and> fst (load_cache (snd (scrape_county two_page_site stamp (Write_failed (Some Unreadable)) stored_old
                              ''nelson'' 5 None None None True)) ''nelson'') = {}"
  by code_simp

text \<open>
  C2, amended: for every run, whatever the outcome of its write, the cache directory is left
  as it was unless \<open>skip_duplicates\<close> is set and the run kept at least one record, that is,
  produced at least one new fingerprint. In that case the county's file is written: when the
  write succeeds the file holds the union of the set loaded at the start and the fingerprints
  of the kept records, when it fails the file is left as the failed write left it. So when the
  write succeeds, or none is made, every fingerprint loaded at the start is still stored
  after the run.
\<close>

theorem cache_write_is_union:
  "((\<not> skip \<or> fst (scrape_county web clock outcome w county_name max_pages date_from date_to kws skip) = [])
      \<longrightarrow> cache_dir (snd (scrape_county web clock outcome w county_name max_pages date_from date_to kws skip))
            = cache_dir w)
   \<and> (skip \<and> fst (scrape_county web clock outcome w county_name max_pages date_from date_to kws skip) \<noteq> []
      \<longrightarrow> cache_dir (snd (scrape_county web clock outcome w county_name max_pages date_from date_to kws skip))
            = (case outcome of
                 Written \<Rightarrow>
                   (cache_dir w)(county_name \<mapsto> Readable
                      (fst (load_cache w county_name)
                       \<union> generate_record_id `
                           set (fst (scrape_county web clock outcome w county_name max_pages
                                       date_from date_to kws skip))))
               | Write_failed left \<Rightarrow> (cache_dir w)(county_name := left)))
   \<and> (outcome = Written \<or> \<not> skip
        \<or> fst (scrape_county web clock outcome w county_name max_pages date_from date_to kws skip) = []
      \<longrightarrow> fst (load_cache w county_name)
            \<subseteq> fst (load_cache (snd (scrape_county web clock outcome w county_name max_pages
                                      date_from date_to kws skip)) county_name))"
proof (cases "map_of counties (py_lower county_name)")
  case None
  then show ?thesis
    by (simp add: scrape_county_unsupported emit_def load_cache_ids)
next
  case (Some slug)
  show ?thesis
    using scrape_county_cache_dir[OF Some, of web clock outcome w max_pages date_from date_to kws skip]
    by (auto simp: load_cache_ids loaded_ids_def split: write_outcome.splits)
qed

theorem cache_write_is_union_witness:
  "length (fst (scrape_county two_page_site stamp Written stored_old ''nelson'' 5 None None None True)) = 3
   \<and> fst (load_cache stored_old ''nelson'') = {''old_x_2023-12-31''}
   \<and> cache_dir (snd (scrape_county two_page_site stamp Written stored_old ''nelson'' 5 None None None True))
        ''nelson''
     = Some (Readable ({''old_x_2023-12-31''} \<union> page_one_ids))
   \<and> cache_dir (snd (scrape_county two_page_site stamp Written stored_old ''nelson'' 5 None None None False))
     = cache_dir stored_old"
proof -
  let ?R = "scrape_county two_page_site stamp Written stored_old ''nelson'' 5 None None None True"
  have len: "length (fst ?R) = 3"
    by code_simp
  then have ne: "fst ?R \<noteq> []"
    by auto
  have l: "fst (load_cache stored_old ''nelson'') = {''old_x_2023-12-31''}"
    by code_simp
  have g: "generate_record_id ` set (fst ?R) = page_one_ids"
    by code_simp
  have "cache_dir (snd ?R)
      = (case Written of
           Written \<Rightarrow>
             (cache_dir stored_old)(''nelson'' \<mapsto> Readable
                (fst (load_cache stored_old ''nelson'') \<union> generate_record_id ` set (fst ?R)))
         | Write_failed left \<Rightarrow> (cache_dir stored_old)(''nelson'' := left))"
    using ne
      cache_write_is_union
        [where skip = True and web = two_page_site and clock = stamp and outcome = Written
           and w = stored_old and county_name = "''nelson''" and max_pages = 5
           and date_from = None and date_to = None and kws = None]
    by blast
  then have c: "cache_dir (snd ?R) ''nelson'' = Some (Readable ({''old_x_2023-12-31''} \<union> page_one_ids))"
    by (simp add: l g)
  have n: "cache_dir (snd (scrape_county two_page_site stamp Written stored_old ''nelson'' 5
                             None None None False)) = cache_dir stored_old"
    using cache_write_is_union
        [where skip = False and web = two_page_site and clock = stamp and outcome = Written
           and w = stored_old and county_name = "''nelson''" and max_pages = 5
           and date_from = None and date_to = None and kws = None]
    by blast
  show ?thesis
    using len l c n by blast
qed

text \<open>
  C8: on a supported county whose page 1 holds three blocks with a name and one block without,
  in any order, and whose page 2 parses to no record, with at least two pages allowed, an empty
  set of loaded fingerprints and no criteria, the run returns the records of page 1, which are
  three and carry the names of the three named blocks in order; it requests page 1 and page 2
  and nothing else, and logs no error.
\<close>

theorem two_page_source_end_to_end:
  "map_of counties (py_lower county_name) = Some slug
   \<and> web slug 1 = Response soup1 \<and> web slug 2 = Response soup2
   \<and> tagged soup1 = pre @ Block e0 # post
   \<and> (name_elem e0 = None \<or> name_elem e0 = Some [])
   \<and> length (pre @ post) = 3
   \<and> (\<forall>cand \<in> set (pre @ post). \<exists>e t. cand = Block e \<and> name_elem e = Some t \<and> t \<noteq> [])
   \<and> parse_page soup2 county_name (clock 2) = []
   \<and> 2 \<le> max_pages \<and> loaded_ids w county_name skip = {}
   \<longrightarrow> fst (scrape_county web clock outcome w county_name max_pages None None None skip)
         = parse_page soup1 county_name (clock 1)
       \<and> map name (fst (scrape_county web clock outcome w county_name max_pages None None None skip))
         = candidate_names (pre @ post)
       \<and> length (fst (scrape_county web clock outcome w county_name max_pages None None None skip)) = 3
       \<and> requests (snd (scrape_county web clock outcome w county_name max_pages None None None skip))
         = requests w @ [(slug, 1), (slug, 2)]
       \<and> filter is_error (logged (snd (scrape_county web clock outcome w county_name max_pages None None None skip)))
         = filter is_error (logged w)"
proof (intro impI, elim conjE)
  assume sup: "map_of counties (py_lower county_name) = Some slug"
    and p1: "web slug 1 = Response soup1" and p2: "web slug 2 = Response soup2"
    and tg: "tagged soup1 = pre @ Block e0 # post"
    and e0: "name_elem e0 = None \<or> name_elem e0 = Some []"
    and len: "length (pre @ post) = 3"
    and valid: "\<forall>cand \<in> set (pre @ post). \<exists>e t. cand = Block e \<and> name_elem e = Some t \<and> t \<noteq> []"
    and empty2: "parse_page soup2 county_name (clock 2) = []"
    and mp: "2 \<le> max_pages" and cache: "loaded_ids w county_name skip = {}"
  let ?R = "scrape_county web clock outcome w county_name max_pages None None None skip"
  let ?P1 = "parse_page soup1 county_name (clock 1)"
  have pages: "[1..max_pages] = 1 # 2 # [3..max_pages]"
    using mp by (simp add: upto_rec1)
  have "candidate_names (tagged soup1) = candidate_names (pre @ post)"
    using e0 tg by (auto simp: candidate_names_append)
  then have names: "map name ?P1 = candidate_names (pre @ post)"
    using tg by (simp add: parse_page_names)
  have "length (map name ?P1) = 3"
    unfolding names using candidate_names_valid[OF valid] len by simp
  then have len1: "length ?P1 = 3"
    by simp
  then have ne: "?P1 \<noteq> []"
    by auto
  have parsed: "parsed_records web clock county_name slug [1..max_pages] = ?P1"
    using p1 p2 ne empty2 by (simp add: pages)
  have recs: "fst ?R = ?P1"
    using scrape_county_records[OF sup, of web clock outcome w max_pages None None None skip]
    by (simp add: parsed cache passes_no_criteria)
  have reqs: "requests (snd ?R) = requests w @ [(slug, 1), (slug, 2)]"
    using scrape_county_requests[OF sup, of web clock outcome w max_pages None None None skip]
      p1 p2 ne empty2 by (simp add: pages)
  obtain a b where lg: "logged (snd ?R) = logged w @ a @ page_events web clock county_name slug
       (loaded_ids w county_name skip) None None None [1..max_pages] @ b"
     and ab: "filter is_error a = []" "filter is_error b = []"
    using scrape_county_logged[OF sup, of web clock outcome w max_pages None None None skip] by blast
  have "filter is_error (page_events web clock county_name slug
       (loaded_ids w county_name skip) None None None [1..max_pages]) = []"
    using p1 p2 ne empty2 by (simp add: pages)
  then have errs: "filter is_error (logged (snd ?R)) = filter is_error (logged w)"
    using lg ab by simp
  show "fst ?R = ?P1 \<and> map name (fst ?R) = candidate_names (pre @ post) \<and> length (fst ?R) = 3
       \<and> requests (snd ?R) = requests w @ [(slug, 1), (slug, 2)]
       \<and> filter is_error (logged (snd ?R)) = filter is_error (logged w)"
    using recs names len1 reqs errs by simp
qed

theorem two_page_source_end_to_end_witness:
  "length (fst (scrape_county two_page_site stamp Written fresh_world ''nelson'' 5 None None None True)) = 3
   \<and> map name (fst (scrape_county two_page_site stamp Written fresh_world ''nelson'' 5 None None None True))
     = [''John Doe'', ''Jane Roe'', ''Max Moe'']
   \<and> requests (snd (scrape_county two_page_site stamp Written fresh_world ''nelson'' 5 None None None True))
     = [(''nelson-county'', 1), (''nelson-county'', 2)]
   \<and> filter is_error (logged (snd (scrape_county two_page_site stamp Written fresh_world ''nelson'' 5
                                      None None None True))) = []"
proof -
  let ?pre = "[block_of ''John Doe'' ''2024-01-02'', block_of ''Jane Roe'' ''2024-01-03'']"
  let ?e0 = "no_match\<lparr>name_elem := Some [], re_booked := Some ''2024-01-04''\<rparr>"
  let ?post = "[block_of ''Max Moe'' ''2024-01-05'']"
  have 1: "map_of counties (py_lower ''nelson'') = Some ''nelson-county''"
    by code_simp
  have 2: "two_page_site ''nelson-county'' 1 = Response page_one
      \<and> two_page_site ''nelson-county'' 2 = Response no_entries"
    by (simp add: two_page_site_def)
  have 3: "tagged page_one = ?pre @ Block ?e0 # ?post"
    by (simp add: page_one_def block_of_def)
  have 4: "name_elem ?e0 = None \<or> name_elem ?e0 = Some []"
    by simp
  have 5: "length (?pre @ ?post) = 3"
    by simp
  have 6: "\<forall>cand \<in> set (?pre @ ?post). \<exists>e t. cand = Block e \<and> name_elem e = Some t \<and> t \<noteq> []"
    by (simp add: block_of_def)
  have 7: "parse_page no_entries ''nelson'' (stamp 2) = []"
    by (simp add: parse_page_def no_entries_def)
  have 8: "(2::int) \<le> 5 \<and> loaded_ids fresh_world ''nelson'' True = {}"
    by (simp add: loaded_ids_def load_cache_def fresh_world_def)
  have "map name (fst (scrape_county two_page_site stamp Written fresh_world ''nelson'' 5 None None None True))
         = candidate_names (?pre @ ?post)
       \<and> length (fst (scrape_county two_page_site stamp Written fresh_world ''nelson'' 5 None None None True)) = 3
       \<and> requests (snd (scrape_county two_page_site stamp Written fresh_world ''nelson'' 5 None None None True))
         = requests fresh_world @ [(''nelson-county'', 1), (''nelson-county'', 2)]
       \<and> filter is_error (logged (snd (scrape_county two_page_site stamp Written fresh_world ''nelson'' 5
                                          None None None True)))
         = filter is_error (logged fresh_world)"
    using 1 2 3 4 5 6 7 8
      two_page_source_end_to_end
        [where county_name = "''nelson''" and slug = "''nelson-county''" and web = two_page_site
           and ?soup1.0 = page_one and ?soup2.0 = no_entries and pre = ?pre and ?e0.0 = ?e0
           and post = ?post and clock = stamp and max_pages = 5 and w = fresh_world
           and skip = True and outcome = Written]
    by blast
  then show ?thesis
    by (simp add: block_of_def fresh_world_def)
qed

text \<open>
  C10, as stated, fails: a fingerprint that occurs twice among the parsed records of a run
  and is already in the cache loaded at the start appears in the returned list not at all.
\<close>

theorem cached_duplicates_both_dropped:
  "parsed_records duplicate_site stamp ''nelson'' ''nelson-county'' [1..5] = [john_doe, john_doe]
   \<and> generate_record_id john_doe = ''john_doe_2024-01-02''
   \<and> fst (scrape_county duplicate_site stamp Written seen_john ''nelson'' 5 None None None True) = []"
  by code_simp

text \<open>
  C10, amended: the list a run returns is the list of its parsed records restricted to those
  that pass the three checks against the fingerprints loaded at the start of the run and the
  criteria; what was kept earlier in the run plays no part. So when a fingerprint occurs twice
  among the parsed records and each of the two records passes the checks on its own, both
  occurrences are in the returned list.
\<close>

theorem decision_per_record:
  "(map_of counties (py_lower county_name) = Some slug \<longrightarrow>
      fst (scrape_county web clock outcome w county_name max_pages date_from date_to kws skip)
        = filter (passes (loaded_ids w county_name skip) date_from date_to kws)
            (parsed_records web clock county_name slug [1..max_pages]))
   \<and> (map_of counties (py_lower county_name) = Some slug
       \<and> parsed_records web clock county_name slug [1..max_pages] = xs @ r1 # ys @ r2 # zs
       \<and> generate_record_id r1 = generate_record_id r2
       \<and> passes (loaded_ids w county_name skip) date_from date_to kws r1
       \<and> passes (loaded_ids w county_name skip) date_from date_to kws r2 \<longrightarrow>
      fst (scrape_county web clock outcome w county_name max_pages date_from date_to kws skip)
        = filter (passes (loaded_ids w county_name skip) date_from date_to kws) xs @ r1 #
          filter (passes (loaded_ids w county_name skip) date_from date_to kws) ys @ r2 #
          filter (passes (loaded_ids w county_name skip) date_from date_to kws) zs)"
  by (simp add: scrape_county_records)

theorem decision_per_record_witness:
  "map_of counties (py_lower ''nelson'') = Some ''nelson-county''
   \<and> parsed_records duplicate_site stamp ''nelson'' ''nelson-county'' [1..5] = [] @ john_doe # [] @ john_doe # []
   \<and> generate_record_id john_doe = generate_record_id john_doe
   \<and> passes (loaded_ids fresh_world ''nelson'' True) None None None john_doe
   \<and> fst (scrape_county duplicate_site stamp Written fresh_world ''nelson'' 5 None None None True)
     = [john_doe, john_doe]"
proof -
  have h: "map_of counties (py_lower ''nelson'') = Some ''nelson-county''
   \<and> parsed_records duplicate_site stamp ''nelson'' ''nelson-county'' [1..5] = [] @ john_doe # [] @ john_doe # []
   \<and> generate_record_id john_doe = generate_record_id john_doe
   \<and> passes (loaded_ids fresh_world ''nelson'' True) None None None john_doe"
    by code_simp
  then have "fst (scrape_county duplicate_site stamp Written fresh_world ''nelson'' 5 None None None True)
     = filter (passes (loaded_ids fresh_world ''nelson'' True) None None None) [] @ john_doe #
       filter (passes (loaded_ids fresh_world ''nelson'' True) None None None) [] @ john_doe #
       filter (passes (loaded_ids fresh_world ''nelson'' True) None None None) []"
    using decision_per_record
        [where county_name = "''nelson''" and slug = "''nelson-county''" and web = duplicate_site
           and clock = stamp and max_pages = 5 and xs = "[]" and ys = "[]" and zs = "[]"
           and ?r1.0 = john_doe and ?r2.0 = john_doe and w = fresh_world and skip = True
           and date_from = None and date_to = None and kws = None and outcome = Written]
    by blast
  then show ?thesis
    using h by simp
qed




text \<open>
  C9, as stated, fails in one part: the error is not surfaced to the caller. A run whose page
  2 cannot be fetched returns the same list, and leaves the same cache file, as a run over a
  site whose page 2 is an empty listing; the failure shows in the log only.
\<close>

theorem fetch_failure_not_in_return_value:
  "failing_site ''nelson-county'' 2 = Request_exception
   \<and> two_page_site ''nelson-county'' 2 = Response no_entries
   \<and> fst (scrape_county failing_site stamp Written fresh_world ''nelson'' 5 None None None True)
     = fst (scrape_county two_page_site stamp Written fresh_world ''nelson'' 5 None None None True)
   \<and> cache_dir (snd (scrape_county failing_site stamp Written fresh_world ''nelson'' 5 None None None True)) ''nelson''
     = cache_dir (snd (scrape_county two_page_site stamp Written fresh_world ''nelson'' 5 None None None True)) ''nelson''"
  by code_simp

text \<open>
  C9, amended: when the request for page \<open>n\<close> of a supported county fails, the run is the run
  with the page limit \<open>n\<close>: no later page is requested, page \<open>n\<close> is requested at most once,
  and the failure is written to the log at error level if the page was reached. The call
  returns normally with the records kept on the pages before \<open>n\<close>. In a run over all
  counties every county of the registry gets its result, the one \<open>scrape_county\<close> gives for
  it on its own, whatever happens to the requests of the other counties.
\<close>

theorem fetch_failure_stops_source_only:
  "(map_of counties (py_lower county_name) = Some slug \<and> web slug n = Request_exception
      \<and> 1 \<le> n \<and> n \<le> max_pages \<longrightarrow>
      scrape_county web clock outcome w county_name max_pages date_from date_to kws skip
        = scrape_county web clock outcome w county_name n date_from date_to kws skip
      \<and> fst (scrape_county web clock outcome w county_name max_pages date_from date_to kws skip)
        = fst (scrape_county web clock outcome w county_name (n - 1) date_from date_to kws skip)
      \<and> (\<exists>sent. requests (snd (scrape_county web clock outcome w county_name max_pages date_from date_to kws skip))
                   = requests w @ map (Pair slug) sent
               \<and> prefix sent [1..n]
               \<and> (n \<in> set sent \<longrightarrow>
                    Error_fetching n \<in> set (logged (snd (scrape_county web clock outcome w county_name
                                                       max_pages date_from date_to kws skip))))))
   \<and> (c \<in> set (map fst counties) \<longrightarrow>
        fst (scrape_all_counties web clocks outcomes w max_pages date_from date_to kws skip) c
          = Some (fst (scrape_county web (clocks c) (outcomes c) w c max_pages date_from date_to kws skip)))"
proof (intro conjI impI)
  assume h: "map_of counties (py_lower county_name) = Some slug \<and> web slug n = Request_exception
      \<and> 1 \<le> n \<and> n \<le> max_pages"
  let ?R = "scrape_county web clock outcome w county_name max_pages date_from date_to kws skip"
  let ?Rn = "scrape_county web clock outcome w county_name n date_from date_to kws skip"
  from h have sup: "map_of counties (py_lower county_name) = Some slug"
    and exc: "web slug n = Request_exception" and n1: "1 \<le> n" and nm: "n \<le> max_pages"
    by simp_all
  show eq: "?R = ?Rn"
    using sup exc n1 nm by (rule scrape_county_stop)
  show "fst ?R = fst (scrape_county web clock outcome w county_name (n - 1) date_from date_to kws skip)"
    unfolding eq using sup exc n1 by (rule scrape_county_before)
  let ?sent = "pages_requested web clock county_name slug [1..n]"
  have 1: "requests (snd ?R) = requests w @ map (Pair slug) ?sent"
    unfolding eq by (rule scrape_county_requests[OF sup])
  have 2: "prefix ?sent [1..n]"
    by (rule pages_requested_prefix)
  have 3: "Error_fetching n \<in> set (logged (snd ?R))" if "n \<in> set ?sent"
  proof -
    obtain a b where "logged (snd ?Rn) = logged w @ a @ page_events web clock county_name slug
        (loaded_ids w county_name skip) date_from date_to kws [1..n] @ b"
      using scrape_county_logged[OF sup, of web clock outcome w n date_from date_to kws skip] by blast
    then show ?thesis
      unfolding eq using that exc page_events_error[where web = web and slug = slug and n = n] by simp
  qed
  show "\<exists>sent. requests (snd ?R) = requests w @ map (Pair slug) sent \<and> prefix sent [1..n]
               \<and> (n \<in> set sent \<longrightarrow> Error_fetching n \<in> set (logged (snd ?R)))"
    using 1 2 3 by blast
next
  assume "c \<in> set (map fst counties)"
  then show "fst (scrape_all_counties web clocks outcomes w max_pages date_from date_to kws skip) c
          = Some (fst (scrape_county web (clocks c) (outcomes c) w c max_pages date_from date_to kws skip))"
    unfolding scrape_all_counties_def
    by (intro scrape_counties_results counties_distinct) simp_all
qed

theorem fetch_failure_stops_source_only_witness:
  "map_of counties (py_lower ''nelson'') = Some ''nelson-county''
   \<and> failing_site ''nelson-county'' 2 = Request_exception
   \<and> scrape_county failing_site stamp Written fresh_world ''nelson'' 5 None None None True
     = scrape_county failing_site stamp Written fresh_world ''nelson'' 2 None None None True
   \<and> fst (scrape_county failing_site stamp Written fresh_world ''nelson'' 5 None None None True)
     = fst (scrape_county failing_site stamp Written fresh_world ''nelson'' (2 - 1) None None None True)
   \<and> Error_fetching 2
       \<in> set (logged (snd (scrape_county failing_site stamp Written fresh_world ''nelson'' 5 None None None True)))
   \<and> fst (scrape_all_counties failing_site (\<lambda>c. stamp) (\<lambda>c. Written) fresh_world 5 None None None True) ''boone''
     = Some (fst (scrape_county failing_site stamp Written fresh_world ''boone'' 5 None None None True))"
proof -
  have h: "map_of counties (py_lower ''nelson'') = Some ''nelson-county''
      \<and> failing_site ''nelson-county'' 2 = Request_exception \<and> (1::int) \<le> 2 \<and> (2::int) \<le> 5"
    by code_simp
  have b: "''boone'' \<in> set (map fst counties)"
    by code_simp
  have e: "Error_fetching 2
       \<in> set (logged (snd (scrape_county failing_site stamp Written fresh_world ''nelson'' 5 None None None True)))"
    by code_simp
  show ?thesis
    using h b e
      fetch_failure_stops_source_only
        [where county_name = "''nelson''" and slug = "''nelson-county''" and web = failing_site
           and n = 2 and max_pages = 5 and clock = stamp and outcome = Written and w = fresh_world
           and date_from = None and date_to = None and kws = None and skip = True
           and c = "''boone''" and clocks = "\<lambda>c. stamp" and outcomes = "\<lambda>c. Written"]
    by blast
qed

end
